theory Spec2Isabelle
  imports Main "HOL-Library.Word"
begin

section \<open>Lowering of the Async dialect to the runtime API and LLVM coroutine intrinsics\<close>

text \<open>
  A shallow embedding of the conversion patterns of AsyncToLLVM.cpp and of the structural
  type conversions of the SCF dialect (StructuralTypeConversions.cpp). Each pattern's
  \<^verbatim>\<open>matchAndRewrite\<close> becomes a function that takes the pattern's arguments and the
  rewriter, and returns the \<^verbatim>\<open>LogicalResult\<close> together with the rewriter after the calls
  the pattern made on it.
\<close>

subsection \<open>Types\<close>

text \<open>
  A C++ \<^verbatim>\<open>Type\<close> is a handle that may be null: \<^verbatim>\<open>Type()\<close>, tested by \<^verbatim>\<open>!type\<close>, is what
  \<^verbatim>\<open>TypeConverter::convertType\<close> returns when no conversion applies. The null handle is
  the constructor \<open>NullType\<close>; the others are the types the patterns test for or build.
  Every type the patterns do not look into is an \<open>OtherType\<close> with its printed form.
\<close>

datatype Type =
    NullType
  | TokenType
  | GroupType
  | ValueType Type
  | CoroIdType
  | CoroStateType
  | CoroHandleType
  | IntegerType nat
  | FunctionType "Type list" "Type list"
  | LLVMPointerType Type
  | LLVMTokenType
  | LLVMVoidType
  | LLVMFunctionType Type "Type list"
  | OtherType string

text \<open>\<^verbatim>\<open>ValueType::getValueType\<close>, called by the source only after a \<^verbatim>\<open>dyn_cast<ValueType>\<close>.\<close>

fun getValueType :: "Type \<Rightarrow> Type" where
  "getValueType (ValueType t) = t"
| "getValueType t = NullType"

subsection \<open>Async Runtime C API declaration\<close>

definition kAddRef :: string where "kAddRef = ''mlirAsyncRuntimeAddRef''"
definition kDropRef :: string where "kDropRef = ''mlirAsyncRuntimeDropRef''"
definition kCreateToken :: string where "kCreateToken = ''mlirAsyncRuntimeCreateToken''"
definition kCreateValue :: string where "kCreateValue = ''mlirAsyncRuntimeCreateValue''"
definition kCreateGroup :: string where "kCreateGroup = ''mlirAsyncRuntimeCreateGroup''"
definition kEmplaceToken :: string where "kEmplaceToken = ''mlirAsyncRuntimeEmplaceToken''"
definition kEmplaceValue :: string where "kEmplaceValue = ''mlirAsyncRuntimeEmplaceValue''"
definition kAwaitToken :: string where "kAwaitToken = ''mlirAsyncRuntimeAwaitToken''"
definition kAwaitValue :: string where "kAwaitValue = ''mlirAsyncRuntimeAwaitValue''"
definition kAwaitGroup :: string where "kAwaitGroup = ''mlirAsyncRuntimeAwaitAllInGroup''"
definition kExecute :: string where "kExecute = ''mlirAsyncRuntimeExecute''"
definition kGetValueStorage :: string where
  "kGetValueStorage = ''mlirAsyncRuntimeGetValueStorage''"
definition kAddTokenToGroup :: string where
  "kAddTokenToGroup = ''mlirAsyncRuntimeAddTokenToGroup''"
definition kAwaitTokenAndExecute :: string where
  "kAwaitTokenAndExecute = ''mlirAsyncRuntimeAwaitTokenAndExecute''"
definition kAwaitValueAndExecute :: string where
  "kAwaitValueAndExecute = ''mlirAsyncRuntimeAwaitValueAndExecute''"
definition kAwaitAllAndExecute :: string where
  "kAwaitAllAndExecute = ''mlirAsyncRuntimeAwaitAllInGroupAndExecute''"

text \<open>The function types of \<^verbatim>\<open>struct AsyncAPI\<close>. The context argument carries no data.\<close>

definition opaquePointerType :: Type where
  "opaquePointerType = LLVMPointerType (IntegerType 8)"

definition tokenType :: Type where
  "tokenType = LLVMTokenType"

definition resumeFunctionType :: Type where
  "resumeFunctionType =
     (let voidTy = LLVMVoidType; i8Ptr = opaquePointerType
      in LLVMFunctionType voidTy [i8Ptr])"

definition addOrDropRefFunctionType :: Type where
  "addOrDropRefFunctionType =
     (let ref = opaquePointerType; count = IntegerType 32
      in FunctionType [ref, count] [])"

definition createTokenFunctionType :: Type where
  "createTokenFunctionType = FunctionType [] [TokenType]"

definition createValueFunctionType :: Type where
  "createValueFunctionType =
     (let i32 = IntegerType 32; val = opaquePointerType
      in FunctionType [i32] [val])"

definition createGroupFunctionType :: Type where
  "createGroupFunctionType = FunctionType [] [GroupType]"

definition getValueStorageFunctionType :: Type where
  "getValueStorageFunctionType =
     (let val = opaquePointerType; storage = opaquePointerType
      in FunctionType [val] [storage])"

definition emplaceTokenFunctionType :: Type where
  "emplaceTokenFunctionType = FunctionType [TokenType] []"

definition emplaceValueFunctionType :: Type where
  "emplaceValueFunctionType = (let val = opaquePointerType in FunctionType [val] [])"

definition awaitTokenFunctionType :: Type where
  "awaitTokenFunctionType = FunctionType [TokenType] []"

definition awaitValueFunctionType :: Type where
  "awaitValueFunctionType = (let val = opaquePointerType in FunctionType [val] [])"

definition awaitGroupFunctionType :: Type where
  "awaitGroupFunctionType = FunctionType [GroupType] []"

definition executeFunctionType :: Type where
  "executeFunctionType =
     (let hdl = opaquePointerType; resume = LLVMPointerType resumeFunctionType
      in FunctionType [hdl, resume] [])"

definition addTokenToGroupFunctionType :: Type where
  "addTokenToGroupFunctionType =
     (let i64 = IntegerType 64 in FunctionType [TokenType, GroupType] [i64])"

definition awaitTokenAndExecuteFunctionType :: Type where
  "awaitTokenAndExecuteFunctionType =
     (let hdl = opaquePointerType; resume = LLVMPointerType resumeFunctionType
      in FunctionType [TokenType, hdl, resume] [])"

definition awaitValueAndExecuteFunctionType :: Type where
  "awaitValueAndExecuteFunctionType =
     (let val = opaquePointerType; hdl = opaquePointerType;
          resume = LLVMPointerType resumeFunctionType
      in FunctionType [val, hdl, resume] [])"

definition awaitAllAndExecuteFunctionType :: Type where
  "awaitAllAndExecuteFunctionType =
     (let hdl = opaquePointerType; resume = LLVMPointerType resumeFunctionType
      in FunctionType [GroupType, hdl, resume] [])"

subsection \<open>The type converter\<close>

text \<open>
  A conversion callback returns \<^verbatim>\<open>Optional<Type>\<close>: \<open>None\<close> is \<^verbatim>\<open>llvm::None\<close> (the
  callback does not handle the type), \<open>Some NullType\<close> is a failed conversion and
  \<open>Some t\<close> the converted type.
\<close>

type_synonym ConversionCallbackFn = "Type \<Rightarrow> Type option"

record TypeConverter =
  conversions :: "ConversionCallbackFn list"

definition TypeConverter_init :: TypeConverter where
  "TypeConverter_init = \<lparr>conversions = []\<rparr>"

text \<open>
  Modelled from the spec: \<^verbatim>\<open>TypeConverter::addConversion\<close> and
  \<^verbatim>\<open>TypeConverter::convertType\<close> belong to the conversion framework, which is not among
  the sources. A callback is registered at the end of the list; \<open>convertType\<close> asks the
  callbacks from the one registered last to the one registered first, takes the answer of
  the first that handles the type, and returns the null type when none does. This is the
  order under which the converter below "only converts types from the Async dialect ...
  and does not convert any other types", as its comment says.
\<close>

definition addConversion :: "ConversionCallbackFn \<Rightarrow> TypeConverter \<Rightarrow> TypeConverter" where
  "addConversion callback converter =
     converter\<lparr>conversions := conversions converter @ [callback]\<rparr>"

fun firstConversion :: "ConversionCallbackFn list \<Rightarrow> Type \<Rightarrow> Type" where
  "firstConversion [] t = NullType"
| "firstConversion (callback # callbacks) t =
     (case callback t of Some r \<Rightarrow> r | None \<Rightarrow> firstConversion callbacks t)"

definition convertType :: "TypeConverter \<Rightarrow> Type \<Rightarrow> Type" where
  "convertType converter t = firstConversion (rev (conversions converter)) t"

text \<open>\<^verbatim>\<open>AsyncRuntimeTypeConverter::convertAsyncTypes\<close>: one equation for each \<^verbatim>\<open>isa\<close> test.\<close>

fun convertAsyncTypes :: "Type \<Rightarrow> Type option" where
  "convertAsyncTypes TokenType = Some opaquePointerType"
| "convertAsyncTypes GroupType = Some opaquePointerType"
| "convertAsyncTypes (ValueType t) = Some opaquePointerType"
| "convertAsyncTypes CoroIdType = Some tokenType"
| "convertAsyncTypes CoroStateType = Some tokenType"
| "convertAsyncTypes CoroHandleType = Some opaquePointerType"
| "convertAsyncTypes t = None"

text \<open>The constructor of \<^verbatim>\<open>AsyncRuntimeTypeConverter\<close>.\<close>

definition AsyncRuntimeTypeConverter :: TypeConverter where
  "AsyncRuntimeTypeConverter =
     addConversion convertAsyncTypes (addConversion (\<lambda>t. Some t) TypeConverter_init)"

text \<open>
  The mapping the specification gives for the converter: the opaque handle type for Token,
  Value and Group, the builder-token type for the coroutine id and state markers, the
  opaque handle type for the coroutine handle, and the type itself for every other type.
\<close>

fun asyncRuntimeType :: "Type \<Rightarrow> Type" where
  "asyncRuntimeType TokenType = LLVMPointerType (IntegerType 8)"
| "asyncRuntimeType (ValueType t) = LLVMPointerType (IntegerType 8)"
| "asyncRuntimeType GroupType = LLVMPointerType (IntegerType 8)"
| "asyncRuntimeType CoroIdType = LLVMTokenType"
| "asyncRuntimeType CoroStateType = LLVMTokenType"
| "asyncRuntimeType CoroHandleType = LLVMPointerType (IntegerType 8)"
| "asyncRuntimeType t = t"

subsection \<open>Values, attributes and operations\<close>

text \<open>
  An SSA value is a result of an operation (the operation's handle and the result's
  number) or a block argument; like the C++ value it carries its type.
\<close>

datatype Value =
    OpResult nat nat Type
  | BlockArgument nat nat Type

fun getType :: "Value \<Rightarrow> Type" where
  "getType (OpResult h i t) = t"
| "getType (BlockArgument b i t) = t"

datatype Attribute =
    IntegerAttr Type int
  | BoolAttr bool
  | StringAttr string
  | FlatSymbolRefAttr string
  | TypeAttr Type
  | DenseIntElementsAttr "32 word list"

text \<open>
  The generic operation: its name, operands, result types, attributes, successor blocks
  (a block is named by its number in the enclosing region) and regions. A region is a
  list of blocks; a block has its argument types and its operations in order.
\<close>

datatype Operation =
  Operation (getName: string) (getOperands: "Value list") (getResultTypes: "Type list")
    (getAttrs: "(string \<times> Attribute) list") (getSuccessors: "nat list")
    (getRegions: "Block list list")
and Block =
  Block (getArguments: "Type list") (getOperations: "Operation list")

type_synonym Region = "Block list"

text \<open>
  The builders of the operations the patterns create. Their C++ definitions are generated
  from the dialects' operation definitions, which are not among the sources; each one
  stores its arguments in the generic operation.
\<close>

definition LLVM_ConstantOp :: "Type \<Rightarrow> Attribute \<Rightarrow> Operation" where
  "LLVM_ConstantOp res attr = Operation ''llvm.mlir.constant'' [] [res] [(''value'', attr)] [] []"

definition ConstantOp :: "Type \<Rightarrow> Attribute \<Rightarrow> Operation" where
  "ConstantOp res attr = Operation ''std.constant'' [] [res] [(''value'', attr)] [] []"

definition LLVM_NullOp :: "Type \<Rightarrow> Operation" where
  "LLVM_NullOp res = Operation ''llvm.mlir.null'' [] [res] [] [] []"

definition LLVM_CoroSuspendOp :: "Type \<Rightarrow> Value list \<Rightarrow> Operation" where
  "LLVM_CoroSuspendOp res args = Operation ''llvm.intr.coro.suspend'' args [res] [] [] []"

definition LLVM_SExtOp :: "Type \<Rightarrow> Value \<Rightarrow> Operation" where
  "LLVM_SExtOp res arg = Operation ''llvm.sext'' [arg] [res] [] [] []"

definition LLVM_SwitchOp ::
  "Value \<Rightarrow> nat \<Rightarrow> Value list \<Rightarrow> 32 word list \<Rightarrow> nat list \<Rightarrow> Value list list
     \<Rightarrow> 32 word list \<Rightarrow> Operation" where
  "LLVM_SwitchOp val defaultDestination defaultOperands caseValues caseDestinations
       caseOperands branchWeights =
     Operation ''llvm.switch'' (val # defaultOperands @ concat caseOperands) []
       [(''case_values'', DenseIntElementsAttr caseValues),
        (''branch_weights'', DenseIntElementsAttr branchWeights)]
       (defaultDestination # caseDestinations) []"

definition LLVM_GEPOp :: "Type \<Rightarrow> Value \<Rightarrow> Value list \<Rightarrow> Operation" where
  "LLVM_GEPOp res base indices = Operation ''llvm.getelementptr'' (base # indices) [res] [] [] []"

definition LLVM_PtrToIntOp :: "Type \<Rightarrow> Value \<Rightarrow> Operation" where
  "LLVM_PtrToIntOp res arg = Operation ''llvm.ptrtoint'' [arg] [res] [] [] []"

definition LLVM_BitcastOp :: "Type \<Rightarrow> Value \<Rightarrow> Operation" where
  "LLVM_BitcastOp res arg = Operation ''llvm.bitcast'' [arg] [res] [] [] []"

definition LLVM_StoreOp :: "Value \<Rightarrow> Value \<Rightarrow> Operation" where
  "LLVM_StoreOp val addr = Operation ''llvm.store'' [val, addr] [] [] [] []"

text \<open>The load builder that takes the address only reads the result type off the pointer type.\<close>

fun getElementType :: "Type \<Rightarrow> Type" where
  "getElementType (LLVMPointerType t) = t"
| "getElementType t = NullType"

definition LLVM_LoadOp :: "Value \<Rightarrow> Operation" where
  "LLVM_LoadOp addr = Operation ''llvm.load'' [addr] [getElementType (getType addr)] [] [] []"

definition CallOp :: "string \<Rightarrow> Type list \<Rightarrow> Value list \<Rightarrow> Operation" where
  "CallOp callee results args =
     Operation ''std.call'' args results [(''callee'', FlatSymbolRefAttr callee)] [] []"

text \<open>
  Modelled from the spec: the meaning of the multiway branch the suspend lowering emits
  (the LLVM dialect's switch is not among the sources). The operand is compared with the
  case values in order; the first equal one selects the case destination at the same
  position, and the default destination, the first successor, is taken when none is equal.
\<close>

fun switchDestination :: "32 word list \<Rightarrow> nat list \<Rightarrow> nat \<Rightarrow> 32 word \<Rightarrow> nat" where
  "switchDestination (c # cs) (d # ds) dflt v =
     (if v = c then d else switchDestination cs ds dflt v)"
| "switchDestination cs ds dflt v = dflt"

fun SwitchOp_destination :: "Operation \<Rightarrow> 32 word \<Rightarrow> nat option" where
  "SwitchOp_destination (Operation name args results attrs (dflt # dests) regions) v =
     (case map_of attrs ''case_values'' of
        Some (DenseIntElementsAttr caseValues) \<Rightarrow> Some (switchDestination caseValues dests dflt v)
      | _ \<Rightarrow> None)"
| "SwitchOp_destination opn v = None"

subsection \<open>The rewriter\<close>

datatype LogicalResult = success | failure

text \<open>
  Modelled from the spec: the conversion rewriter is the graph-mutation interface of the
  surrounding infrastructure (create an operation, move a region, replace uses, erase an
  operation) and is not among the sources. Its state is an arena of operations with
  stable handles, a handle being the position in \<open>operations\<close>; the replacements and
  erasures the patterns asked for; and the match failures they reported, each with the
  handle of the operation it is attached to.
\<close>

record ConversionPatternRewriter =
  operations :: "Operation list"
  replacements :: "(nat \<times> Value list) list"
  erased :: "nat list"
  matchFailures :: "(nat \<times> string) list"

text \<open>A created operation is known by its handle together with what it was built as.\<close>

type_synonym OpHandle = "nat \<times> Operation"

definition create :: "Operation \<Rightarrow> ConversionPatternRewriter \<Rightarrow> OpHandle \<times> ConversionPatternRewriter" where
  "create opn rewriter =
     ((length (operations rewriter), opn),
      rewriter\<lparr>operations := operations rewriter @ [opn]\<rparr>)"

definition getResults :: "OpHandle \<Rightarrow> Value list" where
  "getResults h = map (\<lambda>i. OpResult (fst h) i (getResultTypes (snd h) ! i))
                      [0 ..< length (getResultTypes (snd h))]"

definition getResult :: "OpHandle \<Rightarrow> nat \<Rightarrow> Value" where
  "getResult h i = OpResult (fst h) i (getResultTypes (snd h) ! i)"

definition replaceOp :: "nat \<Rightarrow> Value list \<Rightarrow> ConversionPatternRewriter \<Rightarrow> ConversionPatternRewriter" where
  "replaceOp opn newValues rewriter =
     rewriter\<lparr>replacements := replacements rewriter @ [(opn, newValues)]\<rparr>"

definition replaceOpWithNewOp ::
  "nat \<Rightarrow> Operation \<Rightarrow> ConversionPatternRewriter \<Rightarrow> ConversionPatternRewriter" where
  "replaceOpWithNewOp opn newOp rewriter =
     (let (h, rewriter1) = create newOp rewriter
      in replaceOp opn (getResults h) rewriter1)"

definition eraseOp :: "nat \<Rightarrow> ConversionPatternRewriter \<Rightarrow> ConversionPatternRewriter" where
  "eraseOp opn rewriter = rewriter\<lparr>erased := erased rewriter @ [opn]\<rparr>"

definition notifyMatchFailure ::
  "nat \<Rightarrow> string \<Rightarrow> ConversionPatternRewriter \<Rightarrow> LogicalResult \<times> ConversionPatternRewriter" where
  "notifyMatchFailure opn msg rewriter =
     (failure, rewriter\<lparr>matchFailures := matchFailures rewriter @ [(opn, msg)]\<rparr>)"

text \<open>
  The typed view of an operation being converted gives its handle and the accessors the
  pattern calls. The converted operands reach a pattern as \<^verbatim>\<open>operands\<close>; where the
  pattern reads them through the operation's adaptor only, \<open>operands\<close> is the adaptor,
  a record of the named operands (each field carries the adaptor's name), and where it
  passes them on whole it is the list.
\<close>

record OpState =
  getOperation :: nat

subsection \<open>Convert async.coro.suspend to the coro.suspend intrinsic\<close>

record CoroSuspendOp = OpState +
  suspendDest :: nat
  resumeDest :: nat
  cleanupDest :: nat

record CoroSuspendOpAdaptor =
  CoroSuspendOpAdaptor_state :: Value

definition CoroSuspendOpConversion_matchAndRewrite ::
  "CoroSuspendOp \<Rightarrow> CoroSuspendOpAdaptor \<Rightarrow> ConversionPatternRewriter
     \<Rightarrow> LogicalResult \<times> ConversionPatternRewriter" where
  "CoroSuspendOpConversion_matchAndRewrite op operands rewriter =
     (let i8 = IntegerType 8;
          i32 = IntegerType 32;
          (constFalse, rewriter1) =
             create (LLVM_ConstantOp (IntegerType 1) (BoolAttr False)) rewriter;
          coroState = CoroSuspendOpAdaptor_state operands;
          (coroSuspend, rewriter2) =
             create (LLVM_CoroSuspendOp i8 [coroState, getResult constFalse 0]) rewriter1;
          caseValues = [0, 1];
          caseDest = [resumeDest op, cleanupDest op];
          (sext, rewriter3) = create (LLVM_SExtOp i32 (getResult coroSuspend 0)) rewriter2;
          rewriter4 =
             replaceOpWithNewOp (getOperation op)
               (LLVM_SwitchOp (getResult sext 0) (suspendDest op) [] caseValues caseDest [] [])
               rewriter3
      in (success, rewriter4))"

subsection \<open>Convert async.runtime.create to the corresponding runtime API call\<close>

text \<open>\<^verbatim>\<open>isa<ValueType>\<close> and \<^verbatim>\<open>dyn_cast<ValueType>\<close>.\<close>

fun isa_ValueType :: "Type \<Rightarrow> bool" where
  "isa_ValueType (ValueType t) = True"
| "isa_ValueType t = False"

record RuntimeCreateOp = OpState +
  resultTypes :: "Type list"

text \<open>
  The lambda \<^verbatim>\<open>sizeOf\<close>. The converted payload type goes into the pointer type as the
  converter returned it: there is no test of it between the two lines.
\<close>

definition sizeOf ::
  "TypeConverter \<Rightarrow> Type \<Rightarrow> ConversionPatternRewriter \<Rightarrow> Value \<times> ConversionPatternRewriter" where
  "sizeOf converter valueType rewriter =
     (let i32 = IntegerType 32;
          storedType = convertType converter (getValueType valueType);
          storagePtrType = LLVMPointerType storedType;
          (nullPtr, rewriter1) = create (LLVM_NullOp storagePtrType) rewriter;
          (one, rewriter2) = create (LLVM_ConstantOp i32 (IntegerAttr i32 1)) rewriter1;
          (gep, rewriter3) =
             create (LLVM_GEPOp storagePtrType (getResult nullPtr 0) [getResult one 0]) rewriter2;
          (sizeI, rewriter4) = create (LLVM_PtrToIntOp i32 (getResult gep 0)) rewriter3
      in (getResult sizeI 0, rewriter4))"

definition RuntimeCreateOpLowering_matchAndRewrite ::
  "TypeConverter \<Rightarrow> RuntimeCreateOp \<Rightarrow> Value list \<Rightarrow> ConversionPatternRewriter
     \<Rightarrow> LogicalResult \<times> ConversionPatternRewriter" where
  "RuntimeCreateOpLowering_matchAndRewrite converter op operands rewriter =
     (let resultType = resultTypes op ! 0
      in if resultType = TokenType \<or> resultType = GroupType then
           (success,
            replaceOpWithNewOp (getOperation op)
              (CallOp (if resultType = TokenType then kCreateToken else kCreateGroup)
                 [convertType converter resultType] [])
              rewriter)
         else if isa_ValueType resultType then
           (let (size, rewriter1) = sizeOf converter resultType rewriter
            in (success,
                replaceOpWithNewOp (getOperation op) (CallOp kCreateValue [resultType] [size])
                  rewriter1))
         else notifyMatchFailure (getOperation op) ''unsupported async type'' rewriter)"

subsection \<open>Convert async.runtime.set_available to the corresponding runtime API call\<close>



subsection \<open>Convert async.runtime.store and async.runtime.load\<close>

record RuntimeStoreOp = OpState +
  RuntimeStoreOp_value :: Value

record RuntimeStoreOpAdaptor =
  RuntimeStoreOpAdaptor_value :: Value
  RuntimeStoreOpAdaptor_storage :: Value

definition RuntimeStoreOpLowering_matchAndRewrite ::
  "TypeConverter \<Rightarrow> RuntimeStoreOp \<Rightarrow> RuntimeStoreOpAdaptor \<Rightarrow> ConversionPatternRewriter
     \<Rightarrow> LogicalResult \<times> ConversionPatternRewriter" where
  "RuntimeStoreOpLowering_matchAndRewrite converter op operands rewriter =
     (let i8Ptr = opaquePointerType;
          storage = RuntimeStoreOpAdaptor_storage operands;
          (storagePtr, rewriter1) = create (CallOp kGetValueStorage [i8Ptr] [storage]) rewriter;
          valueType = getType (RuntimeStoreOp_value op);
          llvmValueType = convertType converter valueType
      in if llvmValueType = NullType then
           notifyMatchFailure (getOperation op)
             ''failed to convert stored value type to LLVM type'' rewriter1
         else
           (let (castedStoragePtr, rewriter2) =
                  create (LLVM_BitcastOp (LLVMPointerType llvmValueType)
                            (getResult storagePtr 0)) rewriter1;
                val = RuntimeStoreOpAdaptor_value operands;
                (store, rewriter3) =
                  create (LLVM_StoreOp val (getResult castedStoragePtr 0)) rewriter2
            in (success, eraseOp (getOperation op) rewriter3)))"

record RuntimeLoadOp = OpState +
  result :: Value



subsection \<open>Async reference counting ops lowering\<close>

text \<open>
  The template \<^verbatim>\<open>RefCountingOpLowering\<close> for \<^verbatim>\<open>async.runtime.add_ref\<close> and
  \<^verbatim>\<open>async.runtime.drop_ref\<close>; \<open>count\<close> is the operation's 32-bit count attribute and
  \<open>getI32IntegerAttr\<close> the attribute of type i32 with that value.
\<close>

record RefCountingOp = OpState +
  count :: "32 word"






subsection \<open>Declarations of the runtime API and of malloc/free\<close>

text \<open>
  A module is the list of the operations of its body that precede the terminator; both
  builders of the source insert before the terminator, that is, at the end of this list.

  Modelled from the spec: the symbol table ("does a declaration with this name already
  exist") is not among the sources. A symbol is an operation with a \<open>sym_name\<close> string
  attribute, and \<open>lookupSymbol\<close> returns the first operation of the module with the
  given symbol name, if there is one.
\<close>

record ModuleOp =
  getBody :: "Operation list"

definition symbolName :: "Operation \<Rightarrow> string option" where
  "symbolName opn =
     (case map_of (getAttrs opn) ''sym_name'' of Some (StringAttr name) \<Rightarrow> Some name
      | _ \<Rightarrow> None)"

definition lookupSymbol :: "ModuleOp \<Rightarrow> string \<Rightarrow> Operation option" where
  "lookupSymbol module name = find (\<lambda>opn. symbolName opn = Some name) (getBody module)"

definition FuncOp :: "string \<Rightarrow> Type \<Rightarrow> Operation" where
  "FuncOp name type =
     Operation ''func'' [] [] [(''sym_name'', StringAttr name), (''type'', TypeAttr type)] [] [[]]"

definition setPrivate :: "Operation \<Rightarrow> Operation" where
  "setPrivate opn =
     Operation (getName opn) (getOperands opn) (getResultTypes opn)
       (getAttrs opn @ [(''sym_visibility'', StringAttr ''private'')])
       (getSuccessors opn) (getRegions opn)"

definition LLVM_LLVMFuncOp :: "string \<Rightarrow> Type \<Rightarrow> Operation" where
  "LLVM_LLVMFuncOp name type =
     Operation ''llvm.func'' [] [] [(''sym_name'', StringAttr name), (''type'', TypeAttr type)]
       [] [[]]"

text \<open>The lambda \<^verbatim>\<open>addFuncDecl\<close> of \<^verbatim>\<open>addAsyncRuntimeApiDeclarations\<close>.\<close>

definition addFuncDecl :: "string \<Rightarrow> Type \<Rightarrow> ModuleOp \<Rightarrow> ModuleOp" where
  "addFuncDecl name type module =
     (if lookupSymbol module name \<noteq> None then module
      else module\<lparr>getBody := getBody module @ [setPrivate (FuncOp name type)]\<rparr>)"

text \<open>The sixteen calls of \<^verbatim>\<open>addFuncDecl\<close>, made on the module from first to last.\<close>

definition addAsyncRuntimeApiDeclarations :: "ModuleOp \<Rightarrow> ModuleOp" where
  "addAsyncRuntimeApiDeclarations module =
     foldl (\<lambda>m (name, type). addFuncDecl name type m) module
       [(kAddRef, addOrDropRefFunctionType),
        (kDropRef, addOrDropRefFunctionType),
        (kCreateToken, createTokenFunctionType),
        (kCreateValue, createValueFunctionType),
        (kCreateGroup, createGroupFunctionType),
        (kEmplaceToken, emplaceTokenFunctionType),
        (kEmplaceValue, emplaceValueFunctionType),
        (kAwaitToken, awaitTokenFunctionType),
        (kAwaitValue, awaitValueFunctionType),
        (kAwaitGroup, awaitGroupFunctionType),
        (kExecute, executeFunctionType),
        (kGetValueStorage, getValueStorageFunctionType),
        (kAddTokenToGroup, addTokenToGroupFunctionType),
        (kAwaitTokenAndExecute, awaitTokenAndExecuteFunctionType),
        (kAwaitValueAndExecute, awaitValueAndExecuteFunctionType),
        (kAwaitAllAndExecute, awaitAllAndExecuteFunctionType)]"

definition kMalloc :: string where "kMalloc = ''malloc''"
definition kFree :: string where "kFree = ''free''"

definition addLLVMFuncDecl :: "ModuleOp \<Rightarrow> string \<Rightarrow> Type \<Rightarrow> Type list \<Rightarrow> ModuleOp" where
  "addLLVMFuncDecl module name ret params =
     (if lookupSymbol module name \<noteq> None then module
      else (let type = LLVMFunctionType ret params
            in module\<lparr>getBody := getBody module @ [LLVM_LLVMFuncOp name type]\<rparr>))"

definition addCRuntimeDeclarations :: "ModuleOp \<Rightarrow> ModuleOp" where
  "addCRuntimeDeclarations module =
     (let voidTy = LLVMVoidType;
          i64 = IntegerType 64;
          i8Ptr = LLVMPointerType (IntegerType 8);
          module1 = addLLVMFuncDecl module kMalloc i8Ptr [i64]
      in addLLVMFuncDecl module1 kFree voidTy [i8Ptr])"

text \<open>
  The declaration step: the two calls that open \<^verbatim>\<open>ConvertAsyncToLLVMPass::runOnOperation\<close>.
\<close>

definition runOnOperation_addDeclarations :: "ModuleOp \<Rightarrow> ModuleOp" where
  "runOnOperation_addDeclarations module =
     addCRuntimeDeclarations (addAsyncRuntimeApiDeclarations module)"

text \<open>The names the declaration step declares, and how many symbols of a module have a name.\<close>

definition declaredNames :: "string list" where
  "declaredNames =
     [kAddRef, kDropRef, kCreateToken, kCreateValue, kCreateGroup, kEmplaceToken,
      kEmplaceValue, kAwaitToken, kAwaitValue, kAwaitGroup, kExecute, kGetValueStorage,
      kAddTokenToGroup, kAwaitTokenAndExecute, kAwaitValueAndExecute, kAwaitAllAndExecute,
      kMalloc, kFree]"

definition symbolCount :: "ModuleOp \<Rightarrow> string \<Rightarrow> nat" where
  "symbolCount module name =
     length (filter (\<lambda>opn. symbolName opn = Some name) (getBody module))"

text \<open>
  What both declaring functions do: insert an operation with the given symbol name unless
  the lookup finds one. The lemmas below relate the two functions to it.
\<close>

definition declareIfAbsent :: "string \<Rightarrow> Operation \<Rightarrow> ModuleOp \<Rightarrow> ModuleOp" where
  "declareIfAbsent name opn module =
     (if lookupSymbol module name \<noteq> None then module
      else module\<lparr>getBody := getBody module @ [opn]\<rparr>)"

subsection \<open>Structural type conversions\<close>

text \<open>
  The structural patterns rebuild an operation that owns regions, so the operation they
  convert is an operation of the rewriter's arena and \<open>op\<close> is its handle; a region is
  named by the handle of its operation and its number.

  Modelled from the spec: the calls below belong to the graph-mutation interface and the
  operation classes, which are not among the sources. \<open>cloneWithoutRegions\<close> creates an
  operation with the name, operands, result types, attributes and successors of the given
  one and as many regions, all empty ("a structurally identical replacement operation,
  same attributes, no regions populated yet"). \<open>inlineRegionBefore\<close> moves the blocks of
  a region, in order, into another region before the given position and leaves the first
  region empty ("move (not copy) each region from the old op into the replacement").
  \<open>convertRegionTypes\<close> converts the argument types of the entry block of a region, fails
  when one of them has no converted type, and does not touch the operations of the blocks.
  \<open>setOperands\<close> and the loop over \<open>setType\<close> overwrite the operands and the result
  types of an operation in place.
\<close>

type_synonym RegionRef = "nat \<times> nat"

text \<open>An operation with its regions replaced and everything else as it is.\<close>

definition withRegions :: "Operation \<Rightarrow> Block list list \<Rightarrow> Operation" where
  "withRegions opn regions =
     Operation (getName opn) (getOperands opn) (getResultTypes opn) (getAttrs opn)
       (getSuccessors opn) regions"

definition getRegion :: "ConversionPatternRewriter \<Rightarrow> RegionRef \<Rightarrow> Region" where
  "getRegion rewriter region = getRegions (operations rewriter ! fst region) ! snd region"

definition setRegion :: "RegionRef \<Rightarrow> Region \<Rightarrow> ConversionPatternRewriter \<Rightarrow> ConversionPatternRewriter" where
  "setRegion region blocks rewriter =
     (let opn = operations rewriter ! fst region
      in rewriter\<lparr>operations := (operations rewriter)
           [fst region := withRegions opn ((getRegions opn)[snd region := blocks])]\<rparr>)"

definition regionEnd :: "ConversionPatternRewriter \<Rightarrow> RegionRef \<Rightarrow> nat" where
  "regionEnd rewriter region = length (getRegion rewriter region)"

definition cloneWithoutRegions ::
  "Operation \<Rightarrow> ConversionPatternRewriter \<Rightarrow> nat \<times> ConversionPatternRewriter" where
  "cloneWithoutRegions opn rewriter =
     (let (newOp, rewriter1) =
            create (withRegions opn (map (\<lambda>r. []) (getRegions opn))) rewriter
      in (fst newOp, rewriter1))"

definition inlineRegionBefore ::
  "RegionRef \<Rightarrow> RegionRef \<Rightarrow> nat \<Rightarrow> ConversionPatternRewriter \<Rightarrow> ConversionPatternRewriter" where
  "inlineRegionBefore region parent before rewriter =
     (let blocks = getRegion rewriter region;
          rewriter1 = setRegion region [] rewriter;
          parentBlocks = getRegion rewriter1 parent
      in setRegion parent (take before parentBlocks @ blocks @ drop before parentBlocks)
           rewriter1)"

definition convertRegionTypes ::
  "RegionRef \<Rightarrow> TypeConverter \<Rightarrow> ConversionPatternRewriter
     \<Rightarrow> LogicalResult \<times> ConversionPatternRewriter" where
  "convertRegionTypes region converter rewriter =
     (case getRegion rewriter region of
        [] \<Rightarrow> (success, rewriter)
      | entry # blocks \<Rightarrow>
          (let newArguments = map (convertType converter) (getArguments entry)
           in if NullType \<in> set newArguments then (failure, rewriter)
              else (success,
                    setRegion region (Block newArguments (getOperations entry) # blocks)
                      rewriter)))"

definition setOperands :: "nat \<Rightarrow> Value list \<Rightarrow> ConversionPatternRewriter \<Rightarrow> ConversionPatternRewriter" where
  "setOperands h operands rewriter =
     (let opn = operations rewriter ! h
      in rewriter\<lparr>operations := (operations rewriter)
           [h := Operation (getName opn) operands (getResultTypes opn) (getAttrs opn)
              (getSuccessors opn) (getRegions opn)]\<rparr>)"

definition setResultTypes :: "nat \<Rightarrow> Type list \<Rightarrow> ConversionPatternRewriter \<Rightarrow> ConversionPatternRewriter" where
  "setResultTypes h types rewriter =
     (let opn = operations rewriter ! h
      in rewriter\<lparr>operations := (operations rewriter)
           [h := Operation (getName opn) (getOperands opn) types (getAttrs opn)
              (getSuccessors opn) (getRegions opn)]\<rparr>)"

definition opResults :: "ConversionPatternRewriter \<Rightarrow> nat \<Rightarrow> Value list" where
  "opResults rewriter h = getResults (h, operations rewriter ! h)"

text \<open>
  The regions of the three operations: the body of \<^verbatim>\<open>scf.for\<close>, the then and else regions
  of \<^verbatim>\<open>scf.if\<close>, and the body of \<^verbatim>\<open>async.execute\<close>.
\<close>

definition getLoopBody :: "nat \<Rightarrow> RegionRef" where "getLoopBody op = (op, 0)"
definition thenRegion :: "nat \<Rightarrow> RegionRef" where "thenRegion op = (op, 0)"
definition elseRegion :: "nat \<Rightarrow> RegionRef" where "elseRegion op = (op, 1)"
definition ExecuteOp_getRegion :: "nat \<Rightarrow> RegionRef" where "ExecuteOp_getRegion op = (op, 0)"

text \<open>
  The loop that fills \<^verbatim>\<open>newResultTypes\<close> in the for and if patterns; \<open>None\<close> is the
  return from inside the loop, at the first result type without a converted type.
\<close>

fun convertResultTypes :: "TypeConverter \<Rightarrow> Type list \<Rightarrow> Type list \<Rightarrow> Type list option" where
  "convertResultTypes typeConverter [] newResultTypes = Some newResultTypes"
| "convertResultTypes typeConverter (type # types) newResultTypes =
     (let newType = convertType typeConverter type
      in if newType = NullType then None
         else convertResultTypes typeConverter types (newResultTypes @ [newType]))"

text \<open>
  The loop over \<^verbatim>\<open>llvm::zip(newOp.getResults(), newResultTypes)\<close>: the zip ends with the
  shorter range, and a result beyond it keeps its type.
\<close>

fun zipSetTypes :: "Type list \<Rightarrow> Type list \<Rightarrow> Type list" where
  "zipSetTypes (oldType # oldTypes) (newType # newTypes) = newType # zipSetTypes oldTypes newTypes"
| "zipSetTypes oldTypes newTypes = oldTypes"

definition ConvertForOpTypes_matchAndRewrite ::
  "TypeConverter \<Rightarrow> nat \<Rightarrow> Value list \<Rightarrow> ConversionPatternRewriter
     \<Rightarrow> LogicalResult \<times> ConversionPatternRewriter" where
  "ConvertForOpTypes_matchAndRewrite typeConverter op operands rewriter =
     (case convertResultTypes typeConverter (getResultTypes (operations rewriter ! op)) [] of
        None \<Rightarrow> notifyMatchFailure op ''not a 1:1 type conversion'' rewriter
      | Some newResultTypes \<Rightarrow>
          (let (newOp, rewriter1) = cloneWithoutRegions (operations rewriter ! op) rewriter;
               rewriter2 = inlineRegionBefore (getLoopBody op) (getLoopBody newOp)
                             (regionEnd rewriter1 (getLoopBody newOp)) rewriter1
           in case convertRegionTypes (getLoopBody newOp) typeConverter rewriter2 of
                (failure, rewriter3) \<Rightarrow>
                  notifyMatchFailure op ''could not convert body types'' rewriter3
              | (success, rewriter3) \<Rightarrow>
                  (let rewriter4 = setOperands newOp operands rewriter3;
                       rewriter5 = setResultTypes newOp
                         (zipSetTypes (getResultTypes (operations rewriter4 ! newOp))
                            newResultTypes) rewriter4
                   in (success, replaceOp op (opResults rewriter5 newOp) rewriter5))))"

definition ConvertIfOpTypes_matchAndRewrite ::
  "TypeConverter \<Rightarrow> nat \<Rightarrow> Value list \<Rightarrow> ConversionPatternRewriter
     \<Rightarrow> LogicalResult \<times> ConversionPatternRewriter" where
  "ConvertIfOpTypes_matchAndRewrite typeConverter op operands rewriter =
     (case convertResultTypes typeConverter (getResultTypes (operations rewriter ! op)) [] of
        None \<Rightarrow> notifyMatchFailure op ''not a 1:1 type conversion'' rewriter
      | Some newResultTypes \<Rightarrow>
          (let (newOp, rewriter1) = cloneWithoutRegions (operations rewriter ! op) rewriter;
               rewriter2 = inlineRegionBefore (thenRegion op) (thenRegion newOp)
                             (regionEnd rewriter1 (thenRegion newOp)) rewriter1;
               rewriter3 = inlineRegionBefore (elseRegion op) (elseRegion newOp)
                             (regionEnd rewriter2 (elseRegion newOp)) rewriter2;
               rewriter4 = setOperands newOp operands rewriter3;
               rewriter5 = setResultTypes newOp
                 (zipSetTypes (getResultTypes (operations rewriter4 ! newOp)) newResultTypes)
                 rewriter4
           in (success, replaceOp op (opResults rewriter5 newOp) rewriter5)))"

definition ConvertExecuteOpTypes_matchAndRewrite ::
  "TypeConverter \<Rightarrow> nat \<Rightarrow> Value list \<Rightarrow> ConversionPatternRewriter
     \<Rightarrow> LogicalResult \<times> ConversionPatternRewriter" where
  "ConvertExecuteOpTypes_matchAndRewrite typeConverter op operands rewriter =
     (let (newOp, rewriter1) = cloneWithoutRegions (operations rewriter ! op) rewriter;
          rewriter2 = inlineRegionBefore (ExecuteOp_getRegion op) (ExecuteOp_getRegion newOp)
                        (regionEnd rewriter1 (ExecuteOp_getRegion newOp)) rewriter1;
          rewriter3 = setOperands newOp operands rewriter2
      in case convertRegionTypes (ExecuteOp_getRegion newOp) typeConverter rewriter3 of
           (failure, rewriter4) \<Rightarrow> (failure, rewriter4)
         | (success, rewriter4) \<Rightarrow>
             (let rewriter5 = setResultTypes newOp
                    (map (convertType typeConverter)
                       (getResultTypes (operations rewriter4 ! newOp))) rewriter4
              in (success, replaceOp op (opResults rewriter5 newOp) rewriter5)))"

text \<open>The operations of each block of a region, in the order of the blocks.\<close>

definition childOperations :: "Region \<Rightarrow> Operation list list" where
  "childOperations region = map getOperations region"

section \<open>Properties\<close>

lemma convertType_AsyncRuntimeTypeConverter:
  "convertType AsyncRuntimeTypeConverter t =
     (case convertAsyncTypes t of Some r \<Rightarrow> r | None \<Rightarrow> t)"
  by (simp add: convertType_def AsyncRuntimeTypeConverter_def addConversion_def
      TypeConverter_init_def split: option.splits)

text \<open>
  C3. The async type converter is total and never fails: a Token, Value or Group type
  becomes the i8 pointer type, a coroutine id or state type the LLVM token type, a
  coroutine handle type the i8 pointer type, and every other type is returned unchanged;
  the result is a type (not the null handle) for every type.
\<close>

theorem C3_type_converter_total:
  "convertType AsyncRuntimeTypeConverter t = asyncRuntimeType t
   \<and> (t \<noteq> NullType \<longrightarrow> convertType AsyncRuntimeTypeConverter t \<noteq> NullType)"
  by (cases t) (simp_all add: convertType_AsyncRuntimeTypeConverter opaquePointerType_def
      tokenType_def)

theorem C3_type_converter_total_witness:
  "convertType AsyncRuntimeTypeConverter (ValueType (OtherType ''f32''))
     = LLVMPointerType (IntegerType 8)
   \<and> convertType AsyncRuntimeTypeConverter (OtherType ''f32'') = OtherType ''f32''
   \<and> ValueType (OtherType ''f32'') \<noteq> NullType
   \<and> convertType AsyncRuntimeTypeConverter (ValueType (OtherType ''f32'')) \<noteq> NullType"
  using C3_type_converter_total [of "ValueType (OtherType ''f32'')"]
    C3_type_converter_total [of "OtherType ''f32''"]
  by simp

subsection \<open>The suspend lowering\<close>

lemma scast_8_32_eq_0: "(scast (r :: 8 word) :: 32 word) = 0 \<longleftrightarrow> r = 0"
proof
  assume "(scast r :: 32 word) = 0"
  then have "sint (scast r :: 32 word) = 0" by simp
  then have "sint r = 0" by (simp add: sint_up_scast is_up)
  then show "r = 0" by (simp add: signed_eq_0_iff)
qed simp

lemma scast_8_32_eq_1: "(scast (r :: 8 word) :: 32 word) = 1 \<longleftrightarrow> r = 1"
proof
  assume "(scast r :: 32 word) = 1"
  then have "sint (scast r :: 32 word) = 1" by simp
  then have "sint r = sint (1 :: 8 word)" by (simp add: sint_up_scast is_up)
  then show "r = 1" by (rule signed_word_eqI)
qed simp

text \<open>
  C1. The suspend lowering creates, in this order, the constant false, the coro.suspend
  intrinsic with result type i8, its sign extension to i32 and the switch on the extended
  value; the switch has case value 0 with the resume successor, case value 1 with the
  cleanup successor, and the suspend (final-suspend/exit) successor as default. So
  result 0 goes to the resume block, result 1 to the cleanup block, and every other
  result, -1 among them, to the suspend block.
\<close>

theorem C1_suspend_switch:
  "(let n = length (operations rewriter);
        switchOp = LLVM_SwitchOp (OpResult (n + 2) 0 (IntegerType 32)) (suspendDest op) []
                     [0, 1] [resumeDest op, cleanupDest op] [] []
    in CoroSuspendOpConversion_matchAndRewrite op operands rewriter =
         (success,
          rewriter\<lparr>operations := operations rewriter @
               [LLVM_ConstantOp (IntegerType 1) (BoolAttr False),
                LLVM_CoroSuspendOp (IntegerType 8)
                  [CoroSuspendOpAdaptor_state operands, OpResult n 0 (IntegerType 1)],
                LLVM_SExtOp (IntegerType 32) (OpResult (n + 1) 0 (IntegerType 8)),
                switchOp],
             replacements := replacements rewriter @ [(getOperation op, [])]\<rparr>)
       \<and> SwitchOp_destination switchOp (scast (r :: 8 word)) =
           Some (if r = 0 then resumeDest op else if r = 1 then cleanupDest op
                 else suspendDest op)
       \<and> SwitchOp_destination switchOp (scast (- 1 :: 8 word)) = Some (suspendDest op))"
  unfolding Let_def
proof (intro conjI)
  show "CoroSuspendOpConversion_matchAndRewrite op operands rewriter =
         (success,
          rewriter\<lparr>operations := operations rewriter @
               [LLVM_ConstantOp (IntegerType 1) (BoolAttr False),
                LLVM_CoroSuspendOp (IntegerType 8)
                  [CoroSuspendOpAdaptor_state operands, OpResult (length (operations rewriter)) 0 (IntegerType 1)],
                LLVM_SExtOp (IntegerType 32)
                  (OpResult (length (operations rewriter) + 1) 0 (IntegerType 8)),
                LLVM_SwitchOp (OpResult (length (operations rewriter) + 2) 0 (IntegerType 32))
                  (suspendDest op) [] [0, 1] [resumeDest op, cleanupDest op] [] []],
             replacements := replacements rewriter @ [(getOperation op, [])]\<rparr>)"
    by (simp add: Let_def CoroSuspendOpConversion_matchAndRewrite_def create_def
        getResult_def getResults_def replaceOpWithNewOp_def replaceOp_def
        LLVM_ConstantOp_def LLVM_CoroSuspendOp_def LLVM_SExtOp_def LLVM_SwitchOp_def)
next
  show "SwitchOp_destination
          (LLVM_SwitchOp (OpResult (length (operations rewriter) + 2) 0 (IntegerType 32))
             (suspendDest op) [] [0, 1] [resumeDest op, cleanupDest op] [] [])
          (scast r) =
        Some (if r = 0 then resumeDest op else if r = 1 then cleanupDest op
              else suspendDest op)"
    by (simp add: LLVM_SwitchOp_def scast_8_32_eq_0 scast_8_32_eq_1)
next
  show "SwitchOp_destination
          (LLVM_SwitchOp (OpResult (length (operations rewriter) + 2) 0 (IntegerType 32))
             (suspendDest op) [] [0, 1] [resumeDest op, cleanupDest op] [] [])
          (scast (- 1 :: 8 word)) = Some (suspendDest op)"
    by (simp add: LLVM_SwitchOp_def)
qed

lemmas builder_defs =
  LLVM_ConstantOp_def ConstantOp_def LLVM_NullOp_def LLVM_GEPOp_def LLVM_PtrToIntOp_def
  LLVM_BitcastOp_def LLVM_StoreOp_def LLVM_LoadOp_def CallOp_def

lemmas rewriter_defs =
  create_def getResult_def getResults_def replaceOp_def replaceOpWithNewOp_def eraseOp_def
  notifyMatchFailure_def

subsection \<open>The runtime lowerings\<close>








text \<open>
  C10. The create lowering of a Value of payload type \<open>t\<close> returns success and reports
  no match failure whatever the type converter returns for \<open>t\<close>: the null pointer it
  creates first has the pointer type built from the converter's result as it is. When the
  converter returns no type for \<open>t\<close>, that is the pointer to the null type, while the
  store lowering, given the same converter and a value of type \<open>t\<close>, fails with its
  match failure.
\<close>

theorem C10_create_unguarded:
  "resultTypes op ! 0 = ValueType t \<Longrightarrow>
     fst (RuntimeCreateOpLowering_matchAndRewrite converter op operands rewriter) = success
   \<and> matchFailures (snd (RuntimeCreateOpLowering_matchAndRewrite converter op operands rewriter))
       = matchFailures rewriter
   \<and> take 1 (drop (length (operations rewriter))
        (operations (snd (RuntimeCreateOpLowering_matchAndRewrite converter op operands rewriter))))
       = [LLVM_NullOp (LLVMPointerType (convertType converter t))]
   \<and> (convertType converter t = NullType \<and> getType (RuntimeStoreOp_value storeOp) = t \<longrightarrow>
        take 1 (drop (length (operations rewriter))
          (operations (snd (RuntimeCreateOpLowering_matchAndRewrite converter op operands
                              rewriter))))
          = [LLVM_NullOp (LLVMPointerType NullType)]
        \<and> fst (RuntimeStoreOpLowering_matchAndRewrite converter storeOp storeOperands rewriter)
            = failure
        \<and> matchFailures
             (snd (RuntimeStoreOpLowering_matchAndRewrite converter storeOp storeOperands
                     rewriter))
            = matchFailures rewriter @
                [(getOperation storeOp, ''failed to convert stored value type to LLVM type'')])"
  by (simp add: RuntimeStoreOpLowering_matchAndRewrite_def
      RuntimeCreateOpLowering_matchAndRewrite_def sizeOf_def Let_def rewriter_defs builder_defs
      opaquePointerType_def)

theorem C10_create_unguarded_witness:
  "resultTypes \<lparr>getOperation = 3, resultTypes = [ValueType (OtherType ''tensor<4xf32>'')]\<rparr> ! 0
     = ValueType (OtherType ''tensor<4xf32>'')
   \<and> getType (RuntimeStoreOp_value
        \<lparr>getOperation = 5,
         RuntimeStoreOp_value = BlockArgument 0 0 (OtherType ''tensor<4xf32>'')\<rparr>)
     = OtherType ''tensor<4xf32>''
   \<and> convertType TypeConverter_init (OtherType ''tensor<4xf32>'') = NullType
   \<and> RuntimeCreateOpLowering_matchAndRewrite TypeConverter_init
        \<lparr>getOperation = 3, resultTypes = [ValueType (OtherType ''tensor<4xf32>'')]\<rparr> []
        \<lparr>operations = [], replacements = [], erased = [], matchFailures = []\<rparr>
     = (success,
        \<lparr>operations =
           [LLVM_NullOp (LLVMPointerType NullType),
            LLVM_ConstantOp (IntegerType 32) (IntegerAttr (IntegerType 32) 1),
            LLVM_GEPOp (LLVMPointerType NullType)
              (OpResult 0 0 (LLVMPointerType NullType)) [OpResult 1 0 (IntegerType 32)],
            LLVM_PtrToIntOp (IntegerType 32) (OpResult 2 0 (LLVMPointerType NullType)),
            CallOp kCreateValue [ValueType (OtherType ''tensor<4xf32>'')]
              [OpResult 3 0 (IntegerType 32)]],
         replacements = [(3, [OpResult 4 0 (ValueType (OtherType ''tensor<4xf32>''))])],
         erased = [], matchFailures = []\<rparr>)
   \<and> fst (RuntimeStoreOpLowering_matchAndRewrite TypeConverter_init
        \<lparr>getOperation = 5,
         RuntimeStoreOp_value = BlockArgument 0 0 (OtherType ''tensor<4xf32>'')\<rparr>
        \<lparr>RuntimeStoreOpAdaptor_value = BlockArgument 0 0 (OtherType ''tensor<4xf32>''),
         RuntimeStoreOpAdaptor_storage = BlockArgument 0 1 (LLVMPointerType (IntegerType 8))\<rparr>
        \<lparr>operations = [], replacements = [], erased = [], matchFailures = []\<rparr>)
     = failure"
proof -
  have conv: "convertType TypeConverter_init (OtherType ''tensor<4xf32>'') = NullType"
    by (simp add: convertType_def TypeConverter_init_def)
  have create:
    "RuntimeCreateOpLowering_matchAndRewrite TypeConverter_init
        \<lparr>getOperation = 3, resultTypes = [ValueType (OtherType ''tensor<4xf32>'')]\<rparr> []
        \<lparr>operations = [], replacements = [], erased = [], matchFailures = []\<rparr>
     = (success,
        \<lparr>operations =
           [LLVM_NullOp (LLVMPointerType NullType),
            LLVM_ConstantOp (IntegerType 32) (IntegerAttr (IntegerType 32) 1),
            LLVM_GEPOp (LLVMPointerType NullType)
              (OpResult 0 0 (LLVMPointerType NullType)) [OpResult 1 0 (IntegerType 32)],
            LLVM_PtrToIntOp (IntegerType 32) (OpResult 2 0 (LLVMPointerType NullType)),
            CallOp kCreateValue [ValueType (OtherType ''tensor<4xf32>'')]
              [OpResult 3 0 (IntegerType 32)]],
         replacements = [(3, [OpResult 4 0 (ValueType (OtherType ''tensor<4xf32>''))])],
         erased = [], matchFailures = []\<rparr>)"
    by (simp add: RuntimeCreateOpLowering_matchAndRewrite_def sizeOf_def Let_def rewriter_defs
        builder_defs conv)
  show ?thesis
    using C10_create_unguarded [where
        op = "\<lparr>getOperation = 3, resultTypes = [ValueType (OtherType ''tensor<4xf32>'')]\<rparr>"
        and t = "OtherType ''tensor<4xf32>''"
        and storeOp = "\<lparr>getOperation = 5,
          RuntimeStoreOp_value = BlockArgument 0 0 (OtherType ''tensor<4xf32>'')\<rparr>"
        and converter = TypeConverter_init and operands = "[]"
        and rewriter = "\<lparr>operations = [], replacements = [], erased = [], matchFailures = []\<rparr>"
        and storeOperands =
          "\<lparr>RuntimeStoreOpAdaptor_value = BlockArgument 0 0 (OtherType ''tensor<4xf32>''),
            RuntimeStoreOpAdaptor_storage =
              BlockArgument 0 1 (LLVMPointerType (IntegerType 8))\<rparr>"]
      conv create
    by simp
qed

subsection \<open>The declaration step\<close>

lemma symbolName_FuncOp: "symbolName (setPrivate (FuncOp name type)) = Some name"
  by (simp add: symbolName_def setPrivate_def FuncOp_def)

lemma symbolName_LLVMFuncOp: "symbolName (LLVM_LLVMFuncOp name type) = Some name"
  by (simp add: symbolName_def LLVM_LLVMFuncOp_def)

lemma addFuncDecl_declareIfAbsent:
  "addFuncDecl name type module = declareIfAbsent name (setPrivate (FuncOp name type)) module"
  by (simp add: addFuncDecl_def declareIfAbsent_def)

lemma addLLVMFuncDecl_declareIfAbsent:
  "addLLVMFuncDecl module name ret params =
     declareIfAbsent name (LLVM_LLVMFuncOp name (LLVMFunctionType ret params)) module"
  by (simp add: addLLVMFuncDecl_def declareIfAbsent_def)

lemma lookupSymbol_None_iff: "lookupSymbol module name = None \<longleftrightarrow> symbolCount module name = 0"
  by (auto simp: lookupSymbol_def symbolCount_def find_None_iff filter_empty_conv)

lemma symbolCount_declareIfAbsent:
  "symbolName opn = Some name \<Longrightarrow>
   symbolCount (declareIfAbsent name opn module) n =
     (if n = name \<and> symbolCount module name = 0 then 1 else symbolCount module n)"
  by (auto simp: declareIfAbsent_def lookupSymbol_None_iff) (auto simp: symbolCount_def)

lemma declareIfAbsent_present:
  "symbolCount module name \<noteq> 0 \<Longrightarrow> declareIfAbsent name opn module = module"
  by (simp add: declareIfAbsent_def lookupSymbol_None_iff)

lemma symbolCount_addFuncDecl:
  "symbolCount (addFuncDecl name type module) n =
     (if n = name \<and> symbolCount module name = 0 then 1 else symbolCount module n)"
  by (simp only: addFuncDecl_declareIfAbsent symbolCount_declareIfAbsent [OF symbolName_FuncOp])

lemma symbolCount_addLLVMFuncDecl:
  "symbolCount (addLLVMFuncDecl module name ret params) n =
     (if n = name \<and> symbolCount module name = 0 then 1 else symbolCount module n)"
  by (simp only: addLLVMFuncDecl_declareIfAbsent
      symbolCount_declareIfAbsent [OF symbolName_LLVMFuncOp])

lemma symbolCount_foldl_addFuncDecl:
  "symbolCount (foldl (\<lambda>m (name, type). addFuncDecl name type m) module decls) n =
     (if n \<in> fst ` set decls \<and> symbolCount module n = 0 then 1 else symbolCount module n)"
proof (induction decls arbitrary: module)
  case Nil
  then show ?case by simp
next
  case (Cons d decls)
  obtain name type where d: "d = (name, type)" by (cases d)
  show ?case
    unfolding d foldl_Cons prod.case Cons.IH symbolCount_addFuncDecl
    by auto
qed

lemma foldl_addFuncDecl_present:
  "\<forall>n \<in> fst ` set decls. symbolCount module n \<noteq> 0 \<Longrightarrow>
   foldl (\<lambda>m (name, type). addFuncDecl name type m) module decls = module"
proof (induction decls arbitrary: module)
  case Nil
  then show ?case by simp
next
  case (Cons d decls)
  obtain name type where d: "d = (name, type)" by (cases d)
  have "addFuncDecl name type module = module"
    using Cons.prems by (simp add: d addFuncDecl_declareIfAbsent declareIfAbsent_present)
  with Cons show ?case by (simp add: d)
qed

lemma symbolCount_addAsyncRuntimeApiDeclarations:
  "symbolCount (addAsyncRuntimeApiDeclarations module) n =
     (if n \<in> set (take 16 declaredNames) \<and> symbolCount module n = 0 then 1
      else symbolCount module n)"
  unfolding addAsyncRuntimeApiDeclarations_def symbolCount_foldl_addFuncDecl
  by (simp add: declaredNames_def)

lemma symbolCount_addCRuntimeDeclarations:
  "symbolCount (addCRuntimeDeclarations module) n =
     (if n \<in> set (drop 16 declaredNames) \<and> symbolCount module n = 0 then 1
      else symbolCount module n)"
  by (auto simp: addCRuntimeDeclarations_def Let_def symbolCount_addLLVMFuncDecl
      declaredNames_def kMalloc_def kFree_def)

lemma symbolCount_addDeclarations:
  "symbolCount (runOnOperation_addDeclarations module) n =
     (if n \<in> set declaredNames \<and> symbolCount module n = 0 then 1 else symbolCount module n)"
proof -
  have "set declaredNames = set (take 16 declaredNames) \<union> set (drop 16 declaredNames)"
    by (metis append_take_drop_id set_append)
  then show ?thesis
    by (auto simp: runOnOperation_addDeclarations_def symbolCount_addCRuntimeDeclarations
        symbolCount_addAsyncRuntimeApiDeclarations)
qed

lemma addDeclarations_present:
  assumes "\<forall>n \<in> set declaredNames. symbolCount module n \<noteq> 0"
  shows "runOnOperation_addDeclarations module = module"
proof -
  have api: "addAsyncRuntimeApiDeclarations module = module"
    unfolding addAsyncRuntimeApiDeclarations_def
    by (rule foldl_addFuncDecl_present) (use assms in \<open>simp add: declaredNames_def\<close>)
  have c: "addCRuntimeDeclarations module = module"
    using assms
    by (simp add: addCRuntimeDeclarations_def Let_def addLLVMFuncDecl_declareIfAbsent
        declareIfAbsent_present declaredNames_def)
  show ?thesis by (simp add: runOnOperation_addDeclarations_def api c)
qed

lemma addDeclarations_idem:
  "runOnOperation_addDeclarations (runOnOperation_addDeclarations module) =
     runOnOperation_addDeclarations module"
  by (rule addDeclarations_present) (simp add: symbolCount_addDeclarations)

lemma addDeclarations_funpow:
  "(runOnOperation_addDeclarations ^^ Suc k) module = runOnOperation_addDeclarations module"
  by (induction k) (simp_all add: addDeclarations_idem)

text \<open>
  C9. The declaration step is idempotent: running it twice, or any number of times,
  gives the module that running it once gives, and on a module that already has a symbol
  of every declared name it changes nothing. After the step the module has, for each
  declared name, one symbol of that name if it had none and as many as before otherwise;
  so a module with at most one symbol of a name has exactly one after any number of runs.
\<close>

theorem C9_declarations_idempotent:
  "runOnOperation_addDeclarations (runOnOperation_addDeclarations module) =
     runOnOperation_addDeclarations module
   \<and> (runOnOperation_addDeclarations ^^ Suc k) module = runOnOperation_addDeclarations module
   \<and> ((\<forall>n \<in> set declaredNames. symbolCount module n \<noteq> 0) \<longrightarrow>
        runOnOperation_addDeclarations module = module)
   \<and> (\<forall>n \<in> set declaredNames.
        symbolCount (runOnOperation_addDeclarations module) n = max 1 (symbolCount module n)
        \<and> (symbolCount module n \<le> 1 \<longrightarrow>
             symbolCount ((runOnOperation_addDeclarations ^^ Suc k) module) n = 1))"
proof (intro conjI impI ballI)
  fix n
  assume n: "n \<in> set declaredNames"
  show "symbolCount (runOnOperation_addDeclarations module) n = max 1 (symbolCount module n)"
    using n by (simp add: symbolCount_addDeclarations)
  assume "symbolCount module n \<le> 1"
  then show "symbolCount ((runOnOperation_addDeclarations ^^ Suc k) module) n = 1"
    using n unfolding addDeclarations_funpow by (auto simp: symbolCount_addDeclarations)
qed (simp_all only: addDeclarations_idem addDeclarations_funpow addDeclarations_present)


theorem C9_declarations_idempotent_witness:
  "map (symbolCount (runOnOperation_addDeclarations \<lparr>getBody = []\<rparr>)) declaredNames
     = [1, 1, 1, 1, 1, 1, 1, 1, 1, 1, 1, 1, 1, 1, 1, 1, 1, 1]
   \<and> runOnOperation_addDeclarations (runOnOperation_addDeclarations \<lparr>getBody = []\<rparr>)
       = runOnOperation_addDeclarations \<lparr>getBody = []\<rparr>
   \<and> kMalloc \<in> set declaredNames
   \<and> symbolCount \<lparr>getBody = [LLVM_LLVMFuncOp kMalloc (OtherType ''!llvm.func<ptr<i8> (i64)>'')]\<rparr>
        kMalloc \<le> 1
   \<and> symbolCount ((runOnOperation_addDeclarations ^^ Suc 2)
        \<lparr>getBody = [LLVM_LLVMFuncOp kMalloc (OtherType ''!llvm.func<ptr<i8> (i64)>'')]\<rparr>)
        kMalloc = 1
   \<and> symbolCount \<lparr>getBody = []\<rparr> kAddRef \<le> 1
   \<and> symbolCount ((runOnOperation_addDeclarations ^^ Suc 2) \<lparr>getBody = []\<rparr>) kAddRef = 1"
proof -
  have present: "\<forall>n \<in> set declaredNames.
      symbolCount (runOnOperation_addDeclarations \<lparr>getBody = []\<rparr>) n \<noteq> 0"
    by (simp add: symbolCount_addDeclarations)
  have m: "kMalloc \<in> set declaredNames" and a: "kAddRef \<in> set declaredNames"
    by (simp_all add: declaredNames_def)
  have c1: "symbolCount
      \<lparr>getBody = [LLVM_LLVMFuncOp kMalloc (OtherType ''!llvm.func<ptr<i8> (i64)>'')]\<rparr>
      kMalloc \<le> 1"
    by (simp add: symbolCount_def)
  have c0: "symbolCount \<lparr>getBody = []\<rparr> kAddRef \<le> 1"
    by (simp add: symbolCount_def)
  have counts:
    "map (symbolCount (runOnOperation_addDeclarations \<lparr>getBody = []\<rparr>)) declaredNames
       = [1, 1, 1, 1, 1, 1, 1, 1, 1, 1, 1, 1, 1, 1, 1, 1, 1, 1]"
  proof -
    have "symbolCount \<lparr>getBody = []\<rparr> n = 0" for n
      by (simp add: symbolCount_def)
    then have "\<forall>n \<in> set declaredNames.
        symbolCount (runOnOperation_addDeclarations \<lparr>getBody = []\<rparr>) n = 1"
      by (simp add: symbolCount_addDeclarations)
    then have "map (symbolCount (runOnOperation_addDeclarations \<lparr>getBody = []\<rparr>))
          declaredNames = map (\<lambda>n. 1) declaredNames"
      by simp
    then show ?thesis
      by (simp add: declaredNames_def)
  qed
  show ?thesis
    using present m a c0 c1 counts
      C9_declarations_idempotent [of "runOnOperation_addDeclarations \<lparr>getBody = []\<rparr>" 0]
      C9_declarations_idempotent [of
        "\<lparr>getBody = [LLVM_LLVMFuncOp kMalloc (OtherType ''!llvm.func<ptr<i8> (i64)>'')]\<rparr>" 2]
      C9_declarations_idempotent [of "\<lparr>getBody = []\<rparr>" 2]
    by blast
qed

subsection \<open>The structural conversions\<close>

lemma convertResultTypes_None_iff:
  "convertResultTypes typeConverter types acc = None \<longleftrightarrow>
     (\<exists>t \<in> set types. convertType typeConverter t = NullType)"
  by (induction types arbitrary: acc) (simp_all add: Let_def)

lemma getRegions_withRegions [simp]: "getRegions (withRegions opn regions) = regions"
  by (simp add: withRegions_def)

lemma withRegions_withRegions [simp]:
  "withRegions (withRegions opn regions) regions' = withRegions opn regions'"
  by (simp add: withRegions_def)

text \<open>What each call on the arena leaves as it was.\<close>

lemma length_operations_setRegion [simp]:
  "length (operations (setRegion region blocks rewriter)) = length (operations rewriter)"
  by (simp add: setRegion_def Let_def)

lemma length_operations_inlineRegionBefore [simp]:
  "length (operations (inlineRegionBefore region parent before rewriter)) =
     length (operations rewriter)"
  by (simp add: inlineRegionBefore_def Let_def)

lemma length_operations_convertRegionTypes [simp]:
  "length (operations (snd (convertRegionTypes region converter rewriter))) =
     length (operations rewriter)"
  by (simp add: convertRegionTypes_def Let_def split: list.splits)

lemma length_operations_setOperands [simp]:
  "length (operations (setOperands h operands rewriter)) = length (operations rewriter)"
  by (simp add: setOperands_def Let_def)

lemma length_operations_setResultTypes [simp]:
  "length (operations (setResultTypes h types rewriter)) = length (operations rewriter)"
  by (simp add: setResultTypes_def Let_def)

lemma length_operations_cloneWithoutRegions [simp]:
  "length (operations (snd (cloneWithoutRegions opn rewriter))) =
     Suc (length (operations rewriter))"
  by (simp add: cloneWithoutRegions_def create_def Let_def)

lemma operations_replaceOp [simp]:
  "operations (replaceOp opn newValues rewriter) = operations rewriter"
  by (simp add: replaceOp_def)

lemma nth_operations_setOperands [simp]:
  "k \<noteq> h \<Longrightarrow> operations (setOperands h operands rewriter) ! k = operations rewriter ! k"
  by (simp add: setOperands_def Let_def)

lemma nth_operations_setResultTypes [simp]:
  "k \<noteq> h \<Longrightarrow> operations (setResultTypes h types rewriter) ! k = operations rewriter ! k"
  by (simp add: setResultTypes_def Let_def)

lemma getRegions_setOperands [simp]:
  "getRegions (operations (setOperands h operands rewriter) ! k) =
     getRegions (operations rewriter ! k)"
  by (cases "h < length (operations rewriter)")
    (simp_all add: setOperands_def Let_def nth_list_update list_update_beyond)

lemma getRegions_setResultTypes [simp]:
  "getRegions (operations (setResultTypes h types rewriter) ! k) =
     getRegions (operations rewriter ! k)"
  by (cases "h < length (operations rewriter)")
    (simp_all add: setResultTypes_def Let_def nth_list_update list_update_beyond)

lemma nth_operations_setRegion:
  "k \<noteq> fst region \<Longrightarrow>
   operations (setRegion region blocks rewriter) ! k = operations rewriter ! k"
  by (simp add: setRegion_def Let_def)

lemma getRegions_setRegion:
  "fst region < length (operations rewriter) \<Longrightarrow>
   getRegions (operations (setRegion region blocks rewriter) ! fst region) =
     (getRegions (operations rewriter ! fst region))[snd region := blocks]"
  by (simp add: setRegion_def Let_def)

lemma nth_operations_convertRegionTypes:
  "k \<noteq> fst region \<Longrightarrow>
   operations (snd (convertRegionTypes region converter rewriter)) ! k = operations rewriter ! k"
  by (simp add: convertRegionTypes_def Let_def nth_operations_setRegion split: list.splits)

lemma childOperations_convertRegionTypes:
  "map childOperations
     (getRegions (operations (snd (convertRegionTypes region converter rewriter)) ! k)) =
   map childOperations (getRegions (operations rewriter ! k))"
proof (cases "k = fst region \<and> fst region < length (operations rewriter)")
  case True
  show ?thesis
  proof (cases "getRegion rewriter region")
    case Nil
    then show ?thesis by (simp add: convertRegionTypes_def)
  next
    case (Cons entry blocks)
    let ?regions = "getRegions (operations rewriter ! fst region)"
    have same: "childOperations (Block args (getOperations entry) # blocks) =
          childOperations (?regions ! snd region)" for args
      using Cons by (simp add: childOperations_def getRegion_def)
    have "(map childOperations ?regions)[snd region := childOperations (?regions ! snd region)]
          = map childOperations ?regions"
      by (metis list_update_beyond list_update_id map_update not_le_imp_less nth_map
          length_map)
    then show ?thesis
      using True Cons
      by (simp add: convertRegionTypes_def Let_def getRegions_setRegion map_update same)
  qed
next
  case False
  then consider "k \<noteq> fst region" | "length (operations rewriter) \<le> fst region" by linarith
  then show ?thesis
  proof cases
    case 1
    then show ?thesis by (simp add: nth_operations_convertRegionTypes)
  next
    case 2
    then show ?thesis
      by (simp add: convertRegionTypes_def Let_def setRegion_def list_update_beyond
          split: list.splits)
  qed
qed

text \<open>
  Moving a region of an operation of the arena to the front of a region of the operation
  created last: the first region is left empty, the blocks are in the second.
\<close>

lemma operations_inlineRegionBefore:
  assumes "op < length ops" and "operations rewriter = ops @ [newOp]"
  shows "operations (inlineRegionBefore (op, i) (length ops, j) 0 rewriter) =
           ops[op := withRegions (ops ! op) ((getRegions (ops ! op))[i := []])]
           @ [withRegions newOp
                ((getRegions newOp)[j := getRegions (ops ! op) ! i @ getRegions newOp ! j])]"
  using assms
  by (simp add: inlineRegionBefore_def getRegion_def setRegion_def Let_def nth_append
      list_update_append)

lemma ConvertForOpTypes_success:
  assumes "getRegions (operations rewriter ! op) = [body]"
    and "ConvertForOpTypes_matchAndRewrite typeConverter op operands rewriter =
           (success, rewriter')"
  shows "\<exists>newValues types.
           rewriter' =
             replaceOp op newValues
               (setResultTypes (length (operations rewriter)) types
                  (setOperands (length (operations rewriter)) operands
                     (snd (convertRegionTypes (length (operations rewriter), 0) typeConverter
                        (inlineRegionBefore (op, 0) (length (operations rewriter), 0) 0
                           (rewriter\<lparr>operations := operations rewriter @
                              [withRegions (operations rewriter ! op) [[]]]\<rparr>))))))"
  using assms
  by (auto simp: ConvertForOpTypes_matchAndRewrite_def Let_def cloneWithoutRegions_def
      create_def getLoopBody_def regionEnd_def getRegion_def notifyMatchFailure_def
      split: option.splits prod.splits LogicalResult.splits)

lemma ConvertExecuteOpTypes_success:
  assumes "getRegions (operations rewriter ! op) = [body]"
    and "ConvertExecuteOpTypes_matchAndRewrite typeConverter op operands rewriter =
           (success, rewriter')"
  shows "\<exists>newValues types.
           rewriter' =
             replaceOp op newValues
               (setResultTypes (length (operations rewriter)) types
                  (snd (convertRegionTypes (length (operations rewriter), 0) typeConverter
                     (setOperands (length (operations rewriter)) operands
                        (inlineRegionBefore (op, 0) (length (operations rewriter), 0) 0
                           (rewriter\<lparr>operations := operations rewriter @
                              [withRegions (operations rewriter ! op) [[]]]\<rparr>))))))"
  using assms
  by (auto simp: ConvertExecuteOpTypes_matchAndRewrite_def Let_def cloneWithoutRegions_def
      create_def ExecuteOp_getRegion_def regionEnd_def getRegion_def
      split: prod.splits LogicalResult.splits)

lemma ConvertIfOpTypes_success:
  assumes "ConvertIfOpTypes_matchAndRewrite typeConverter op operands rewriter =
           (success, rewriter')"
  shows "\<exists>newValues types.
           rewriter' =
             replaceOp op newValues
               (setResultTypes (length (operations rewriter)) types
                  (setOperands (length (operations rewriter)) operands
                     (inlineRegionBefore (op, 1) (length (operations rewriter), 1)
                        (regionEnd
                           (inlineRegionBefore (op, 0) (length (operations rewriter), 0)
                              (regionEnd (snd (cloneWithoutRegions (operations rewriter ! op)
                                                 rewriter))
                                 (length (operations rewriter), 0))
                              (snd (cloneWithoutRegions (operations rewriter ! op) rewriter)))
                           (length (operations rewriter), 1))
                        (inlineRegionBefore (op, 0) (length (operations rewriter), 0)
                           (regionEnd (snd (cloneWithoutRegions (operations rewriter ! op)
                                              rewriter))
                              (length (operations rewriter), 0))
                           (snd (cloneWithoutRegions (operations rewriter ! op) rewriter))))))"
proof -
  have clone: "fst (cloneWithoutRegions (operations rewriter ! op) rewriter) =
      length (operations rewriter)"
    by (simp add: cloneWithoutRegions_def create_def)
  show ?thesis
    using assms clone
    by (auto simp: ConvertIfOpTypes_matchAndRewrite_def Let_def thenRegion_def elseRegion_def
        notifyMatchFailure_def split: option.splits prod.splits)
qed


text \<open>
  The arena after a pattern's calls on the clone: setting operands and result types and
  converting the entry block's argument types change the last operation only, and not
  the operations in its blocks.
\<close>

lemma ConvertForOpTypes_moves_region:
  assumes op: "op < length (operations rewriter)"
    and body: "getRegions (operations rewriter ! op) = [body]"
    and ok: "ConvertForOpTypes_matchAndRewrite typeConverter op operands rewriter =
           (success, rewriter')"
  shows "length (operations rewriter') = Suc (length (operations rewriter))
       \<and> map childOperations (getRegions (operations rewriter' ! length (operations rewriter)))
           = [childOperations body]
       \<and> take (length (operations rewriter)) (operations rewriter')
           = (operations rewriter)[op := withRegions (operations rewriter ! op) [[]]]"
proof -
  let ?n = "length (operations rewriter)"
  let ?old = "operations rewriter ! op"
  let ?rw2 = "inlineRegionBefore (op, 0) (?n, 0) 0
                (rewriter\<lparr>operations := operations rewriter @ [withRegions ?old [[]]]\<rparr>)"
  let ?rw3 = "snd (convertRegionTypes (?n, 0) typeConverter ?rw2)"
  from ConvertForOpTypes_success [OF body ok] obtain newValues types where
    rw': "rewriter' = replaceOp op newValues
            (setResultTypes ?n types (setOperands ?n operands ?rw3))"
    by blast
  have rw2: "operations ?rw2 =
      (operations rewriter)[op := withRegions ?old [[]]] @ [withRegions ?old [body]]"
    using body by (simp add: operations_inlineRegionBefore [OF op])
  have at_new: "operations ?rw2 ! ?n = withRegions ?old [body]"
    by (simp only: rw2) (simp add: nth_append)
  have at_old: "operations ?rw2 ! h = (operations rewriter)[op := withRegions ?old [[]]] ! h"
    if "h < ?n" for h
    using that by (simp only: rw2) (simp add: nth_append)
  have "length (operations ?rw2) = Suc ?n"
    by (simp only: rw2) simp
  then have len: "length (operations rewriter') = Suc ?n"
    by (simp add: rw')
  have "map childOperations (getRegions (operations rewriter' ! ?n)) =
        map childOperations (getRegions (operations ?rw2 ! ?n))"
    by (simp add: rw' childOperations_convertRegionTypes)
  then have new: "map childOperations (getRegions (operations rewriter' ! ?n)) =
        [childOperations body]"
    by (simp only: at_new) simp
  have other: "operations rewriter' ! h = (operations rewriter)[op := withRegions ?old [[]]] ! h"
    if "h < ?n" for h
  proof -
    from that have "h \<noteq> ?n" by simp
    then have "operations rewriter' ! h = operations ?rw2 ! h"
      by (simp add: rw' nth_operations_convertRegionTypes)
    then show ?thesis by (simp only: at_old [OF that])
  qed
  have old: "take ?n (operations rewriter') = (operations rewriter)[op := withRegions ?old [[]]]"
    using len by (intro nth_equalityI) (simp_all add: other)
  show ?thesis
    using len new old by blast
qed

lemma ConvertExecuteOpTypes_moves_region:
  assumes op: "op < length (operations rewriter)"
    and body: "getRegions (operations rewriter ! op) = [body]"
    and ok: "ConvertExecuteOpTypes_matchAndRewrite typeConverter op operands rewriter =
           (success, rewriter')"
  shows "length (operations rewriter') = Suc (length (operations rewriter))
       \<and> map childOperations (getRegions (operations rewriter' ! length (operations rewriter)))
           = [childOperations body]
       \<and> take (length (operations rewriter)) (operations rewriter')
           = (operations rewriter)[op := withRegions (operations rewriter ! op) [[]]]"
proof -
  let ?n = "length (operations rewriter)"
  let ?old = "operations rewriter ! op"
  let ?rw2 = "inlineRegionBefore (op, 0) (?n, 0) 0
                (rewriter\<lparr>operations := operations rewriter @ [withRegions ?old [[]]]\<rparr>)"
  let ?rw3 = "snd (convertRegionTypes (?n, 0) typeConverter (setOperands ?n operands ?rw2))"
  from ConvertExecuteOpTypes_success [OF body ok] obtain newValues types where
    rw': "rewriter' = replaceOp op newValues (setResultTypes ?n types ?rw3)"
    by blast
  have rw2: "operations ?rw2 =
      (operations rewriter)[op := withRegions ?old [[]]] @ [withRegions ?old [body]]"
    using body by (simp add: operations_inlineRegionBefore [OF op])
  have at_new: "operations ?rw2 ! ?n = withRegions ?old [body]"
    by (simp only: rw2) (simp add: nth_append)
  have at_old: "operations ?rw2 ! h = (operations rewriter)[op := withRegions ?old [[]]] ! h"
    if "h < ?n" for h
    using that by (simp only: rw2) (simp add: nth_append)
  have "length (operations ?rw2) = Suc ?n"
    by (simp only: rw2) simp
  then have len: "length (operations rewriter') = Suc ?n"
    by (simp add: rw')
  have "map childOperations (getRegions (operations rewriter' ! ?n)) =
        map childOperations (getRegions (operations ?rw2 ! ?n))"
    by (simp add: rw' childOperations_convertRegionTypes)
  then have new: "map childOperations (getRegions (operations rewriter' ! ?n)) =
        [childOperations body]"
    by (simp only: at_new) simp
  have other: "operations rewriter' ! h = (operations rewriter)[op := withRegions ?old [[]]] ! h"
    if "h < ?n" for h
  proof -
    from that have "h \<noteq> ?n" by simp
    then have "operations rewriter' ! h = operations ?rw2 ! h"
      by (simp add: rw' nth_operations_convertRegionTypes)
    then show ?thesis by (simp only: at_old [OF that])
  qed
  have old: "take ?n (operations rewriter') = (operations rewriter)[op := withRegions ?old [[]]]"
    using len by (intro nth_equalityI) (simp_all add: other)
  show ?thesis
    using len new old by blast
qed

lemma ConvertIfOpTypes_moves_regions:
  assumes op: "op < length (operations rewriter)"
    and regions: "getRegions (operations rewriter ! op) = [thenBlocks, elseBlocks]"
    and ok: "ConvertIfOpTypes_matchAndRewrite typeConverter op operands rewriter =
           (success, rewriter')"
  shows "length (operations rewriter') = Suc (length (operations rewriter))
       \<and> getRegions (operations rewriter' ! length (operations rewriter))
           = [thenBlocks, elseBlocks]
       \<and> take (length (operations rewriter)) (operations rewriter')
           = (operations rewriter)[op := withRegions (operations rewriter ! op) [[], []]]"
proof -
  let ?ops = "operations rewriter"
  let ?n = "length ?ops"
  let ?old = "?ops ! op"
  let ?ops2 = "?ops[op := withRegions ?old [[], elseBlocks]]"
  define rw1 where "rw1 = snd (cloneWithoutRegions ?old rewriter)"
  define rw2 where "rw2 = inlineRegionBefore (op, 0) (?n, 0) (regionEnd rw1 (?n, 0)) rw1"
  define rw3 where "rw3 = inlineRegionBefore (op, 1) (?n, 1) (regionEnd rw2 (?n, 1)) rw2"
  from ConvertIfOpTypes_success [OF ok] obtain newValues types where
    rw': "rewriter' = replaceOp op newValues
            (setResultTypes ?n types (setOperands ?n operands rw3))"
    unfolding rw1_def rw2_def rw3_def by blast
  have ops1: "operations rw1 = ?ops @ [withRegions ?old [[], []]]"
    using regions by (simp add: rw1_def cloneWithoutRegions_def create_def)
  have end1: "regionEnd rw1 (?n, 0) = 0"
    by (simp add: regionEnd_def getRegion_def ops1)
  have ops2: "operations rw2 = ?ops2 @ [withRegions ?old [thenBlocks, []]]"
    unfolding rw2_def end1 using regions
    by (simp add: operations_inlineRegionBefore [OF op ops1])
  have end2: "regionEnd rw2 (?n, 1) = 0"
    by (simp add: regionEnd_def getRegion_def ops2 nth_append)
  have op2: "op < length ?ops2" and n2: "length ?ops2 = ?n"
    using op by simp_all
  note step = operations_inlineRegionBefore [OF op2 ops2, of 1 1]
  have ops3: "operations rw3 =
      ?ops[op := withRegions ?old [[], []]] @ [withRegions ?old [thenBlocks, elseBlocks]]"
    unfolding rw3_def end2 using step op by simp
  have len: "length (operations rewriter') = Suc ?n"
    by (simp add: rw' ops3)
  have new: "getRegions (operations rewriter' ! ?n) = [thenBlocks, elseBlocks]"
    by (simp add: rw' ops3 nth_append)
  have other: "operations rewriter' ! h = ?ops[op := withRegions ?old [[], []]] ! h"
    if "h < ?n" for h
  proof -
    from that have "h \<noteq> ?n" by simp
    then have "operations rewriter' ! h = operations rw3 ! h"
      by (simp add: rw')
    then show ?thesis using that by (simp add: ops3 nth_append)
  qed
  have old: "take ?n (operations rewriter') =
      (operations rewriter)[op := withRegions ?old [[], []]]"
    using len by (intro nth_equalityI) (simp_all add: other)
  show ?thesis
    using len new old by blast
qed


lemma length_operations_ConvertForOpTypes:
  assumes "convertResultTypes typeConverter (getResultTypes (operations rewriter ! op)) [] =
             Some newTypes"
  shows "length (operations (snd (ConvertForOpTypes_matchAndRewrite typeConverter op operands
                                    rewriter))) = Suc (length (operations rewriter))"
proof -
  obtain newOp rw1 where clone: "cloneWithoutRegions (operations rewriter ! op) rewriter =
      (newOp, rw1)"
    by fastforce
  define rw2 where "rw2 = inlineRegionBefore (getLoopBody op) (getLoopBody newOp)
                            (regionEnd rw1 (getLoopBody newOp)) rw1"
  obtain res rw3 where conv: "convertRegionTypes (getLoopBody newOp) typeConverter rw2 =
      (res, rw3)"
    by fastforce
  have "length (operations rw1) = Suc (length (operations rewriter))"
    using length_operations_cloneWithoutRegions [of "operations rewriter ! op" rewriter] clone
    by simp
  moreover have "length (operations rw2) = length (operations rw1)"
    by (simp add: rw2_def)
  moreover have "length (operations rw3) = length (operations rw2)"
    using length_operations_convertRegionTypes [of "getLoopBody newOp" typeConverter rw2]
    by (simp only: conv snd_conv)
  ultimately have "length (operations rw3) = Suc (length (operations rewriter))"
    by simp
  then show ?thesis
    using assms clone conv [unfolded rw2_def]
    by (cases res) (simp_all add: ConvertForOpTypes_matchAndRewrite_def Let_def
        notifyMatchFailure_def)
qed

lemma length_operations_ConvertIfOpTypes:
  assumes "convertResultTypes typeConverter (getResultTypes (operations rewriter ! op)) [] =
             Some newTypes"
  shows "length (operations (snd (ConvertIfOpTypes_matchAndRewrite typeConverter op operands
                                    rewriter))) = Suc (length (operations rewriter))"
proof -
  obtain newOp rw1 where clone: "cloneWithoutRegions (operations rewriter ! op) rewriter =
      (newOp, rw1)"
    by fastforce
  have "length (operations rw1) = Suc (length (operations rewriter))"
    using length_operations_cloneWithoutRegions [of "operations rewriter ! op" rewriter] clone
    by simp
  then show ?thesis
    using assms clone
    by (simp add: ConvertIfOpTypes_matchAndRewrite_def Let_def)
qed

text \<open>When the patterns succeed.\<close>

lemma fst_convertRegionTypes:
  "fst (convertRegionTypes region converter rewriter) =
     (case getRegion rewriter region of
        [] \<Rightarrow> success
      | entry # blocks \<Rightarrow>
          if NullType \<in> set (map (convertType converter) (getArguments entry)) then failure
          else success)"
  by (simp add: convertRegionTypes_def Let_def split: list.splits)

lemma ConvertIfOpTypes_succeeds:
  assumes "convertResultTypes typeConverter (getResultTypes (operations rewriter ! op)) [] =
             Some newTypes"
  shows "fst (ConvertIfOpTypes_matchAndRewrite typeConverter op operands rewriter) = success"
  using assms by (simp add: ConvertIfOpTypes_matchAndRewrite_def Let_def split: prod.splits)

lemma getRegion_after_inline:
  assumes op: "op < length (operations rewriter)"
    and body: "getRegions (operations rewriter ! op) = [body]"
  shows "getRegion
           (inlineRegionBefore (op, 0) (length (operations rewriter), 0) 0
              (rewriter\<lparr>operations := operations rewriter @
                 [withRegions (operations rewriter ! op) [[]]]\<rparr>))
           (length (operations rewriter), 0) = body"
proof -
  let ?rw2 = "inlineRegionBefore (op, 0) (length (operations rewriter), 0) 0
                (rewriter\<lparr>operations := operations rewriter @
                   [withRegions (operations rewriter ! op) [[]]]\<rparr>)"
  have "operations ?rw2 =
      (operations rewriter)[op := withRegions (operations rewriter ! op) [[]]]
      @ [withRegions (operations rewriter ! op) [body]]"
    using body by (simp add: operations_inlineRegionBefore [OF op])
  then have "operations ?rw2 ! length (operations rewriter) =
      withRegions (operations rewriter ! op) [body]"
    by (simp add: nth_append)
  then show ?thesis
    by (simp add: getRegion_def)
qed

lemma ConvertForOpTypes_succeeds:
  assumes op: "op < length (operations rewriter)"
    and body: "getRegions (operations rewriter ! op) = [body]"
    and types: "convertResultTypes typeConverter (getResultTypes (operations rewriter ! op)) []
                  = Some newTypes"
    and args: "case body of [] \<Rightarrow> True
               | entry # blocks \<Rightarrow>
                   NullType \<notin> set (map (convertType typeConverter) (getArguments entry))"
  shows "fst (ConvertForOpTypes_matchAndRewrite typeConverter op operands rewriter) = success"
proof -
  let ?n = "length (operations rewriter)"
  let ?rw2 = "inlineRegionBefore (op, 0) (?n, 0) 0
                (rewriter\<lparr>operations := operations rewriter @
                   [withRegions (operations rewriter ! op) [[]]]\<rparr>)"
  have "fst (convertRegionTypes (?n, 0) typeConverter ?rw2) = success"
    using args
    by (simp only: fst_convertRegionTypes getRegion_after_inline [OF op body])
      (auto split: list.splits)
  then obtain rw3 where "convertRegionTypes (?n, 0) typeConverter ?rw2 = (success, rw3)"
    by (metis prod.collapse)
  then show ?thesis
    using types body
    by (simp add: ConvertForOpTypes_matchAndRewrite_def Let_def cloneWithoutRegions_def
        create_def getLoopBody_def regionEnd_def getRegion_def)
qed

lemma ConvertExecuteOpTypes_succeeds:
  assumes op: "op < length (operations rewriter)"
    and body: "getRegions (operations rewriter ! op) = [body]"
    and args: "case body of [] \<Rightarrow> True
               | entry # blocks \<Rightarrow>
                   NullType \<notin> set (map (convertType typeConverter) (getArguments entry))"
  shows "fst (ConvertExecuteOpTypes_matchAndRewrite typeConverter op operands rewriter) = success"
proof -
  let ?n = "length (operations rewriter)"
  let ?rw2 = "inlineRegionBefore (op, 0) (?n, 0) 0
                (rewriter\<lparr>operations := operations rewriter @
                   [withRegions (operations rewriter ! op) [[]]]\<rparr>)"
  have "getRegion (setOperands ?n operands ?rw2) (?n, 0) = getRegion ?rw2 (?n, 0)"
    by (simp add: getRegion_def)
  then have "fst (convertRegionTypes (?n, 0) typeConverter (setOperands ?n operands ?rw2))
               = success"
    using args
    by (simp only: fst_convertRegionTypes getRegion_after_inline [OF op body])
      (auto split: list.splits)
  then obtain rw4 where
    "convertRegionTypes (?n, 0) typeConverter (setOperands ?n operands ?rw2) = (success, rw4)"
    by (metis prod.collapse)
  then show ?thesis
    using body
    by (simp add: ConvertExecuteOpTypes_matchAndRewrite_def Let_def cloneWithoutRegions_def
        create_def ExecuteOp_getRegion_def regionEnd_def getRegion_def)
qed

text \<open>
  C4. When some result type of the for or if operation has no converted type, the
  pattern returns failure with the match failure "not a 1:1 type conversion" and the
  rewriter is otherwise as it was: no operation is created, and the operation and its
  regions are untouched. When every result type has a converted type, the pattern goes on
  and creates the replacement operation.
\<close>

theorem C4_not_one_to_one:
  "(if \<exists>t \<in> set (getResultTypes (operations rewriter ! op)).
          convertType typeConverter t = NullType
    then ConvertForOpTypes_matchAndRewrite typeConverter op operands rewriter =
           (failure, rewriter\<lparr>matchFailures := matchFailures rewriter @
                                 [(op, ''not a 1:1 type conversion'')]\<rparr>)
         \<and> ConvertIfOpTypes_matchAndRewrite typeConverter op operands rewriter =
           (failure, rewriter\<lparr>matchFailures := matchFailures rewriter @
                                 [(op, ''not a 1:1 type conversion'')]\<rparr>)
    else length (operations (snd (ConvertForOpTypes_matchAndRewrite typeConverter op operands
                                    rewriter))) = Suc (length (operations rewriter))
         \<and> length (operations (snd (ConvertIfOpTypes_matchAndRewrite typeConverter op operands
                                    rewriter))) = Suc (length (operations rewriter)))"
proof (cases "\<exists>t \<in> set (getResultTypes (operations rewriter ! op)).
          convertType typeConverter t = NullType")
  case True
  then have "convertResultTypes typeConverter (getResultTypes (operations rewriter ! op)) [] = None"
    by (simp only: convertResultTypes_None_iff)
  with True show ?thesis
    by (simp add: ConvertForOpTypes_matchAndRewrite_def ConvertIfOpTypes_matchAndRewrite_def
        notifyMatchFailure_def)
next
  case False
  then have "convertResultTypes typeConverter (getResultTypes (operations rewriter ! op)) [] \<noteq> None"
    by (simp only: convertResultTypes_None_iff not_False_eq_True)
  then obtain newTypes where
    "convertResultTypes typeConverter (getResultTypes (operations rewriter ! op)) [] = Some newTypes"
    by blast
  with False show ?thesis
    by (simp add: length_operations_ConvertForOpTypes length_operations_ConvertIfOpTypes)
qed

theorem C4_not_one_to_one_witness:
  "(let ifOp = Operation ''scf.if'' [BlockArgument 0 0 (IntegerType 1)]
                 [TokenType, OtherType ''tensor<4xf32>''] [] []
                 [[Block [] [Operation ''scf.yield'' [] [] [] [] []]],
                  [Block [] [Operation ''scf.yield'' [] [] [] [] []]]];
        rewriter = \<lparr>operations = [ifOp], replacements = [], erased = [], matchFailures = []\<rparr>;
        asyncOnly = addConversion convertAsyncTypes TypeConverter_init
    in (\<exists>t \<in> set (getResultTypes (operations rewriter ! 0)). convertType asyncOnly t = NullType)
       \<and> ConvertIfOpTypes_matchAndRewrite asyncOnly 0 [BlockArgument 0 0 (IntegerType 1)] rewriter
           = (failure, \<lparr>operations = [ifOp], replacements = [], erased = [],
                        matchFailures = [(0, ''not a 1:1 type conversion'')]\<rparr>)
       \<and> ConvertForOpTypes_matchAndRewrite asyncOnly 0 [BlockArgument 0 0 (IntegerType 1)] rewriter
           = (failure, \<lparr>operations = [ifOp], replacements = [], erased = [],
                        matchFailures = [(0, ''not a 1:1 type conversion'')]\<rparr>)
       \<and> \<not> (\<exists>t \<in> set (getResultTypes (operations rewriter ! 0)).
               convertType AsyncRuntimeTypeConverter t = NullType)
       \<and> length (operations (snd (ConvertIfOpTypes_matchAndRewrite AsyncRuntimeTypeConverter 0
                                     [BlockArgument 0 0 (IntegerType 1)] rewriter))) = 2)"
proof -
  let ?ifOp = "Operation ''scf.if'' [BlockArgument 0 0 (IntegerType 1)]
                 [TokenType, OtherType ''tensor<4xf32>''] [] []
                 [[Block [] [Operation ''scf.yield'' [] [] [] [] []]],
                  [Block [] [Operation ''scf.yield'' [] [] [] [] []]]]"
  let ?rewriter = "\<lparr>operations = [?ifOp], replacements = [], erased = [], matchFailures = []\<rparr>"
  let ?asyncOnly = "addConversion convertAsyncTypes TypeConverter_init"
  have bad: "\<exists>t \<in> set (getResultTypes (operations ?rewriter ! 0)).
               convertType ?asyncOnly t = NullType"
    by (simp add: convertType_def addConversion_def TypeConverter_init_def)
  have good: "\<not> (\<exists>t \<in> set (getResultTypes (operations ?rewriter ! 0)).
               convertType AsyncRuntimeTypeConverter t = NullType)"
    by (simp add: convertType_AsyncRuntimeTypeConverter opaquePointerType_def)
  show ?thesis
    using bad good
      C4_not_one_to_one [of ?rewriter 0 ?asyncOnly "[BlockArgument 0 0 (IntegerType 1)]"]
      C4_not_one_to_one [of ?rewriter 0 AsyncRuntimeTypeConverter
        "[BlockArgument 0 0 (IntegerType 1)]"]
    by (simp add: Let_def)
qed

text \<open>
  An arena whose operations before the last are the old ones, but for one operation whose
  regions were replaced, read through the accessors.
\<close>

lemma arena_prefix_accessors:
  assumes op: "op < length ops"
    and len: "length ops' = Suc (length ops)"
    and prefix: "take (length ops) ops' = ops[op := withRegions (ops ! op) regions]"
  shows "getRegions (ops' ! op) = regions"
    and "getName (ops' ! op) = getName (ops ! op)"
    and "getOperands (ops' ! op) = getOperands (ops ! op)"
    and "getResultTypes (ops' ! op) = getResultTypes (ops ! op)"
    and "getAttrs (ops' ! op) = getAttrs (ops ! op)"
    and "getSuccessors (ops' ! op) = getSuccessors (ops ! op)"
    and "\<forall>h < length ops. h \<noteq> op \<longrightarrow> ops' ! h = ops ! h"
proof -
  have nth: "ops' ! h = ops[op := withRegions (ops ! op) regions] ! h" if "h < length ops" for h
    using that prefix by (metis nth_take)
  have old: "ops' ! op = withRegions (ops ! op) regions"
    using op by (simp add: nth)
  show "getRegions (ops' ! op) = regions"
    and "getName (ops' ! op) = getName (ops ! op)"
    and "getOperands (ops' ! op) = getOperands (ops ! op)"
    and "getResultTypes (ops' ! op) = getResultTypes (ops ! op)"
    and "getAttrs (ops' ! op) = getAttrs (ops ! op)"
    and "getSuccessors (ops' ! op) = getSuccessors (ops ! op)"
    by (simp_all add: old withRegions_def)
  show "\<forall>h < length ops. h \<noteq> op \<longrightarrow> ops' ! h = ops ! h"
    by (simp add: nth)
qed

text \<open>
  C2. When the for, if or execute pattern succeeds on an operation of the arena, the
  arena has one operation more, the replacement. Each region of the replacement has the
  blocks of the corresponding region of the old operation with the same operations in
  the same order (for the if operation the regions are the same altogether). The old
  operation is left with empty regions, its name, operands, result types, attributes and
  successors as they were, and every other operation of the arena is as it was. So the
  nested operations are in the replacement and nowhere else: none is duplicated and none
  is dropped.
\<close>

theorem C2_regions_moved:
  assumes "op < length (operations rewriter)"
  shows
   "(length (getRegions (operations rewriter ! op)) = 1
       \<and> ConvertForOpTypes_matchAndRewrite typeConverter op operands rewriter =
           (success, rewriter') \<longrightarrow>
       length (operations rewriter') = Suc (length (operations rewriter))
       \<and> map childOperations (getRegions (operations rewriter' ! length (operations rewriter)))
           = map childOperations (getRegions (operations rewriter ! op))
       \<and> getRegions (operations rewriter' ! op) = [[]]
       \<and> getName (operations rewriter' ! op) = getName (operations rewriter ! op)
       \<and> getOperands (operations rewriter' ! op) = getOperands (operations rewriter ! op)
       \<and> getResultTypes (operations rewriter' ! op) = getResultTypes (operations rewriter ! op)
       \<and> getAttrs (operations rewriter' ! op) = getAttrs (operations rewriter ! op)
       \<and> getSuccessors (operations rewriter' ! op) = getSuccessors (operations rewriter ! op)
       \<and> (\<forall>h < length (operations rewriter). h \<noteq> op \<longrightarrow>
             operations rewriter' ! h = operations rewriter ! h))
    \<and> (length (getRegions (operations rewriter ! op)) = 2
       \<and> ConvertIfOpTypes_matchAndRewrite typeConverter op operands rewriter =
           (success, rewriter') \<longrightarrow>
       length (operations rewriter') = Suc (length (operations rewriter))
       \<and> getRegions (operations rewriter' ! length (operations rewriter))
           = getRegions (operations rewriter ! op)
       \<and> getRegions (operations rewriter' ! op) = [[], []]
       \<and> getName (operations rewriter' ! op) = getName (operations rewriter ! op)
       \<and> getOperands (operations rewriter' ! op) = getOperands (operations rewriter ! op)
       \<and> getResultTypes (operations rewriter' ! op) = getResultTypes (operations rewriter ! op)
       \<and> getAttrs (operations rewriter' ! op) = getAttrs (operations rewriter ! op)
       \<and> getSuccessors (operations rewriter' ! op) = getSuccessors (operations rewriter ! op)
       \<and> (\<forall>h < length (operations rewriter). h \<noteq> op \<longrightarrow>
             operations rewriter' ! h = operations rewriter ! h))
    \<and> (length (getRegions (operations rewriter ! op)) = 1
       \<and> ConvertExecuteOpTypes_matchAndRewrite typeConverter op operands rewriter =
           (success, rewriter') \<longrightarrow>
       length (operations rewriter') = Suc (length (operations rewriter))
       \<and> map childOperations (getRegions (operations rewriter' ! length (operations rewriter)))
           = map childOperations (getRegions (operations rewriter ! op))
       \<and> getRegions (operations rewriter' ! op) = [[]]
       \<and> getName (operations rewriter' ! op) = getName (operations rewriter ! op)
       \<and> getOperands (operations rewriter' ! op) = getOperands (operations rewriter ! op)
       \<and> getResultTypes (operations rewriter' ! op) = getResultTypes (operations rewriter ! op)
       \<and> getAttrs (operations rewriter' ! op) = getAttrs (operations rewriter ! op)
       \<and> getSuccessors (operations rewriter' ! op) = getSuccessors (operations rewriter ! op)
       \<and> (\<forall>h < length (operations rewriter). h \<noteq> op \<longrightarrow>
             operations rewriter' ! h = operations rewriter ! h))"
proof (intro conjI impI; elim conjE)
  assume "length (getRegions (operations rewriter ! op)) = 1"
  then obtain body where body: "getRegions (operations rewriter ! op) = [body]"
    by (auto simp: length_Suc_conv)
  {
    assume "ConvertForOpTypes_matchAndRewrite typeConverter op operands rewriter =
              (success, rewriter')"
    note moved = ConvertForOpTypes_moves_region [OF assms body this]
    note old = arena_prefix_accessors [OF assms moved [THEN conjunct1]
        moved [THEN conjunct2, THEN conjunct2]]
    from moved old
    show "length (operations rewriter') = Suc (length (operations rewriter))"
      and "map childOperations (getRegions (operations rewriter' ! length (operations rewriter)))
           = map childOperations (getRegions (operations rewriter ! op))"
      and "getRegions (operations rewriter' ! op) = [[]]"
      and "getName (operations rewriter' ! op) = getName (operations rewriter ! op)"
      and "getOperands (operations rewriter' ! op) = getOperands (operations rewriter ! op)"
      and "getResultTypes (operations rewriter' ! op) = getResultTypes (operations rewriter ! op)"
      and "getAttrs (operations rewriter' ! op) = getAttrs (operations rewriter ! op)"
      and "getSuccessors (operations rewriter' ! op) = getSuccessors (operations rewriter ! op)"
      and "\<forall>h < length (operations rewriter). h \<noteq> op \<longrightarrow>
             operations rewriter' ! h = operations rewriter ! h"
      by (simp_all add: body)
  }
  {
    assume "ConvertExecuteOpTypes_matchAndRewrite typeConverter op operands rewriter =
              (success, rewriter')"
    note moved = ConvertExecuteOpTypes_moves_region [OF assms body this]
    note old = arena_prefix_accessors [OF assms moved [THEN conjunct1]
        moved [THEN conjunct2, THEN conjunct2]]
    from moved old
    show "length (operations rewriter') = Suc (length (operations rewriter))"
      and "map childOperations (getRegions (operations rewriter' ! length (operations rewriter)))
           = map childOperations (getRegions (operations rewriter ! op))"
      and "getRegions (operations rewriter' ! op) = [[]]"
      and "getName (operations rewriter' ! op) = getName (operations rewriter ! op)"
      and "getOperands (operations rewriter' ! op) = getOperands (operations rewriter ! op)"
      and "getResultTypes (operations rewriter' ! op) = getResultTypes (operations rewriter ! op)"
      and "getAttrs (operations rewriter' ! op) = getAttrs (operations rewriter ! op)"
      and "getSuccessors (operations rewriter' ! op) = getSuccessors (operations rewriter ! op)"
      and "\<forall>h < length (operations rewriter). h \<noteq> op \<longrightarrow>
             operations rewriter' ! h = operations rewriter ! h"
      by (simp_all add: body)
  }
next
  assume "length (getRegions (operations rewriter ! op)) = 2"
  then obtain thenBlocks elseBlocks where
    regions: "getRegions (operations rewriter ! op) = [thenBlocks, elseBlocks]"
    by (auto simp: length_Suc_conv numeral_2_eq_2)
  assume "ConvertIfOpTypes_matchAndRewrite typeConverter op operands rewriter =
            (success, rewriter')"
  note moved = ConvertIfOpTypes_moves_regions [OF assms regions this]
  note old = arena_prefix_accessors [OF assms moved [THEN conjunct1]
      moved [THEN conjunct2, THEN conjunct2]]
  from moved old
    show "length (operations rewriter') = Suc (length (operations rewriter))"
      and "getRegions (operations rewriter' ! length (operations rewriter))
           = getRegions (operations rewriter ! op)"
      and "getRegions (operations rewriter' ! op) = [[], []]"
      and "getName (operations rewriter' ! op) = getName (operations rewriter ! op)"
      and "getOperands (operations rewriter' ! op) = getOperands (operations rewriter ! op)"
      and "getResultTypes (operations rewriter' ! op) = getResultTypes (operations rewriter ! op)"
      and "getAttrs (operations rewriter' ! op) = getAttrs (operations rewriter ! op)"
      and "getSuccessors (operations rewriter' ! op) = getSuccessors (operations rewriter ! op)"
      and "\<forall>h < length (operations rewriter). h \<noteq> op \<longrightarrow>
             operations rewriter' ! h = operations rewriter ! h"
    by (simp_all add: regions)
qed


theorem C2_regions_moved_witness:
  "(let forOp = Operation ''scf.for''
        [BlockArgument 0 0 (OtherType ''index''), BlockArgument 0 1 TokenType] [TokenType] [] []
        [[Block [OtherType ''index'', TokenType]
            [Operation ''async.runtime.add_ref'' [BlockArgument 1 1 TokenType] []
               [(''count'', IntegerAttr (IntegerType 32) 1)] [] [],
             Operation ''scf.yield'' [BlockArgument 1 1 TokenType] [] [] [] []]]];
        other = Operation ''std.constant'' [] [OtherType ''index'']
                   [(''value'', IntegerAttr (OtherType ''index'') 0)] [] [];
        rewriter = \<lparr>operations = [forOp, other], replacements = [], erased = [],
                     matchFailures = []\<rparr>;
        result = ConvertForOpTypes_matchAndRewrite AsyncRuntimeTypeConverter 0
                   [BlockArgument 0 0 (OtherType ''index''),
                    BlockArgument 0 1 (LLVMPointerType (IntegerType 8))] rewriter
    in (0::nat) < length (operations rewriter)
       \<and> length (getRegions (operations rewriter ! 0)) = 1
       \<and> fst result = success
       \<and> length (operations (snd result)) = 3
       \<and> map childOperations (getRegions (operations (snd result) ! 2)) =
           [[[Operation ''async.runtime.add_ref'' [BlockArgument 1 1 TokenType] []
                [(''count'', IntegerAttr (IntegerType 32) 1)] [] [],
              Operation ''scf.yield'' [BlockArgument 1 1 TokenType] [] [] [] []]]]
       \<and> getRegions (operations (snd result) ! 0) = [[]]
       \<and> getName (operations (snd result) ! 0) = ''scf.for''
       \<and> getOperands (operations (snd result) ! 0) =
           [BlockArgument 0 0 (OtherType ''index''), BlockArgument 0 1 TokenType]
       \<and> getResultTypes (operations (snd result) ! 0) = [TokenType]
       \<and> operations (snd result) ! 1 = other)
   \<and> (let ifOp = Operation ''scf.if'' [BlockArgument 0 0 (IntegerType 1)] [TokenType] [] []
                 [[Block [] [Operation ''scf.yield'' [BlockArgument 0 1 TokenType] [] [] [] []]],
                  [Block [] [Operation ''scf.yield'' [BlockArgument 0 2 TokenType] [] [] [] []]]];
        other = Operation ''std.constant'' [] [OtherType ''index'']
                   [(''value'', IntegerAttr (OtherType ''index'') 0)] [] [];
        rewriter = \<lparr>operations = [ifOp, other], replacements = [], erased = [],
                     matchFailures = []\<rparr>;
        result = ConvertIfOpTypes_matchAndRewrite AsyncRuntimeTypeConverter 0
                   [BlockArgument 0 0 (IntegerType 1)] rewriter
    in (0::nat) < length (operations rewriter)
       \<and> length (getRegions (operations rewriter ! 0)) = 2
       \<and> fst result = success
       \<and> length (operations (snd result)) = 3
       \<and> getRegions (operations (snd result) ! 2) =
           [[Block [] [Operation ''scf.yield'' [BlockArgument 0 1 TokenType] [] [] [] []]],
            [Block [] [Operation ''scf.yield'' [BlockArgument 0 2 TokenType] [] [] [] []]]]
       \<and> getRegions (operations (snd result) ! 0) = [[], []]
       \<and> getName (operations (snd result) ! 0) = ''scf.if''
       \<and> getResultTypes (operations (snd result) ! 0) = [TokenType]
       \<and> operations (snd result) ! 1 = other)
   \<and> (let executeOp = Operation ''async.execute'' [] [TokenType, ValueType (OtherType ''f32'')]
                 [] []
                 [[Block []
                    [Operation ''std.constant'' [] [OtherType ''f32'']
                       [(''value'', StringAttr ''1.0'')] [] [],
                     Operation ''async.yield'' [OpResult 9 0 (OtherType ''f32'')] [] [] [] []]]];
        other = Operation ''std.constant'' [] [OtherType ''index'']
                   [(''value'', IntegerAttr (OtherType ''index'') 0)] [] [];
        rewriter = \<lparr>operations = [executeOp, other], replacements = [], erased = [],
                      matchFailures = []\<rparr>;
        result = ConvertExecuteOpTypes_matchAndRewrite AsyncRuntimeTypeConverter 0 [] rewriter
    in (0::nat) < length (operations rewriter)
       \<and> length (getRegions (operations rewriter ! 0)) = 1
       \<and> fst result = success
       \<and> length (operations (snd result)) = 3
       \<and> map childOperations (getRegions (operations (snd result) ! 2)) =
           [[[Operation ''std.constant'' [] [OtherType ''f32'']
                [(''value'', StringAttr ''1.0'')] [] [],
              Operation ''async.yield'' [OpResult 9 0 (OtherType ''f32'')] [] [] [] []]]]
       \<and> getRegions (operations (snd result) ! 0) = [[]]
       \<and> getName (operations (snd result) ! 0) = ''async.execute''
       \<and> getResultTypes (operations (snd result) ! 0) = [TokenType, ValueType (OtherType ''f32'')]
       \<and> operations (snd result) ! 1 = other)"
  (is "?forPart \<and> ?ifPart \<and> ?exPart")
proof -
  let ?other = "Operation ''std.constant'' [] [OtherType ''index'']
                   [(''value'', IntegerAttr (OtherType ''index'') 0)] [] []"
  let ?forOp = "Operation ''scf.for''
        [BlockArgument 0 0 (OtherType ''index''), BlockArgument 0 1 TokenType] [TokenType] [] []
        [[Block [OtherType ''index'', TokenType]
            [Operation ''async.runtime.add_ref'' [BlockArgument 1 1 TokenType] []
               [(''count'', IntegerAttr (IntegerType 32) 1)] [] [],
             Operation ''scf.yield'' [BlockArgument 1 1 TokenType] [] [] [] []]]]"
  let ?rewriter = "\<lparr>operations = [?forOp, ?other], replacements = [], erased = [],
                     matchFailures = []\<rparr>"
  let ?result = "ConvertForOpTypes_matchAndRewrite AsyncRuntimeTypeConverter 0
                   [BlockArgument 0 0 (OtherType ''index''),
                    BlockArgument 0 1 (LLVMPointerType (IntegerType 8))] ?rewriter"
  have "convertResultTypes AsyncRuntimeTypeConverter
          (getResultTypes (operations ?rewriter ! 0)) [] = Some [LLVMPointerType (IntegerType 8)]"
    by (simp add: convertType_AsyncRuntimeTypeConverter opaquePointerType_def)
  then have ok: "fst ?result = success"
    by (rule ConvertForOpTypes_succeeds [rotated 2,
          where body = "[Block [OtherType ''index'', TokenType]
            [Operation ''async.runtime.add_ref'' [BlockArgument 1 1 TokenType] []
               [(''count'', IntegerAttr (IntegerType 32) 1)] [] [],
             Operation ''scf.yield'' [BlockArgument 1 1 TokenType] [] [] [] []]]"])
      (simp_all add: convertType_AsyncRuntimeTypeConverter opaquePointerType_def)
  then have res: "?result = (success, snd ?result)"
    by (metis prod.collapse)
  have op: "(0::nat) < length (operations ?rewriter)" by simp
  have regions: "length (getRegions (operations ?rewriter ! 0)) = 1" by simp
  note moved = C2_regions_moved [OF op, of AsyncRuntimeTypeConverter
        "[BlockArgument 0 0 (OtherType ''index''),
                    BlockArgument 0 1 (LLVMPointerType (IntegerType 8))]" "snd ?result",
        THEN conjunct1, rule_format, OF conjI [OF regions res]]
  let ?ifOp = "Operation ''scf.if'' [BlockArgument 0 0 (IntegerType 1)] [TokenType] [] []
                 [[Block [] [Operation ''scf.yield'' [BlockArgument 0 1 TokenType] [] [] [] []]],
                  [Block [] [Operation ''scf.yield'' [BlockArgument 0 2 TokenType] [] [] [] []]]]"
  let ?rwIf = "\<lparr>operations = [?ifOp, ?other], replacements = [], erased = [],
                  matchFailures = []\<rparr>"
  let ?resIf = "ConvertIfOpTypes_matchAndRewrite AsyncRuntimeTypeConverter 0
                   [BlockArgument 0 0 (IntegerType 1)] ?rwIf"
  have okIf: "fst ?resIf = success"
    by (rule ConvertIfOpTypes_succeeds [where newTypes = "[LLVMPointerType (IntegerType 8)]"])
      (simp add: convertType_AsyncRuntimeTypeConverter opaquePointerType_def)
  then have resIf: "?resIf = (success, snd ?resIf)"
    by (metis prod.collapse)
  have opIf: "(0::nat) < length (operations ?rwIf)" by simp
  have regionsIf: "length (getRegions (operations ?rwIf ! 0)) = 2" by simp
  note movedIf = C2_regions_moved [OF opIf, of AsyncRuntimeTypeConverter
        "[BlockArgument 0 0 (IntegerType 1)]" "snd ?resIf",
        THEN conjunct2, THEN conjunct1, rule_format, OF conjI [OF regionsIf resIf]]
  let ?executeOp = "Operation ''async.execute'' [] [TokenType, ValueType (OtherType ''f32'')]
                 [] []
                 [[Block []
                    [Operation ''std.constant'' [] [OtherType ''f32'']
                       [(''value'', StringAttr ''1.0'')] [] [],
                     Operation ''async.yield'' [OpResult 9 0 (OtherType ''f32'')] [] [] [] []]]]"
  let ?rwEx = "\<lparr>operations = [?executeOp, ?other], replacements = [], erased = [],
                      matchFailures = []\<rparr>"
  let ?resEx = "ConvertExecuteOpTypes_matchAndRewrite AsyncRuntimeTypeConverter 0 [] ?rwEx"
  have okEx: "fst ?resEx = success"
    by (rule ConvertExecuteOpTypes_succeeds
          [where body = "[Block []
                    [Operation ''std.constant'' [] [OtherType ''f32'']
                       [(''value'', StringAttr ''1.0'')] [] [],
                     Operation ''async.yield'' [OpResult 9 0 (OtherType ''f32'')] [] [] [] []]]"])
      simp_all
  then have resEx: "?resEx = (success, snd ?resEx)"
    by (metis prod.collapse)
  have opEx: "(0::nat) < length (operations ?rwEx)" by simp
  have regionsEx: "length (getRegions (operations ?rwEx ! 0)) = 1" by simp
  note movedEx = C2_regions_moved [OF opEx, of AsyncRuntimeTypeConverter "[]" "snd ?resEx",
        THEN conjunct2, THEN conjunct2, rule_format, OF conjI [OF regionsEx resEx]]
  have "?forPart"
    unfolding Let_def using moved ok
    by (simp add: childOperations_def numeral_2_eq_2 numeral_3_eq_3)
  moreover have "?ifPart"
    unfolding Let_def using movedIf okIf
    by (simp add: numeral_2_eq_2 numeral_3_eq_3)
  moreover have "?exPart"
    unfolding Let_def using movedEx okEx
    by (simp add: childOperations_def numeral_2_eq_2 numeral_3_eq_3)
  ultimately show ?thesis by blast
qed

end
